theory Spec2Isabelle
  imports Complex_Main "HOL-Library.Char_ord" "HOL-Library.List_Lexorder" "HOL-Library.AList"
begin

section \<open>Python values and exceptions\<close>

text \<open>
  The backend is Python. Its floats are kept abstract: the type variable \<open>'f\<close> stands for
  Python's \<open>float\<close>, and the operations the code applies to floats are passed in a record,
  so that nothing proved below depends on how floating-point arithmetic rounds.
\<close>

record 'f pyfloat =
  int_truediv :: "int \<Rightarrow> int \<Rightarrow> 'f"
  float_mul :: "'f \<Rightarrow> 'f \<Rightarrow> 'f"
  float_add :: "'f \<Rightarrow> 'f \<Rightarrow> 'f"
  float_round :: "'f \<Rightarrow> int \<Rightarrow> 'f"
  float_ge :: "'f \<Rightarrow> 'f \<Rightarrow> bool"
  float_lit :: "string \<Rightarrow> 'f"
  float_bool :: "'f \<Rightarrow> bool"

text \<open>
  \<open>int_truediv\<close> is \<open>a / b\<close> on two ints, \<open>float_round x n\<close> is \<open>round(x, n)\<close>,
  \<open>float_ge\<close> is \<open>>=\<close>, \<open>float_lit\<close> reads a float literal of the source text, and
  \<open>float_bool\<close> is the truth value of a float (false for zero).
\<close>

text \<open>What \<open>json.loads\<close> returns: dicts keep their insertion order.\<close>

datatype 'f json =
    JNull
  | JBool bool
  | JInt int
  | JFloat 'f
  | JStr string
  | JArr "'f json list"
  | JObj "(string \<times> 'f json) list"

text \<open>
  The exceptions the modelled code can raise. \<open>HTTPException status detail cause\<close> is
  FastAPI's exception: \<open>detail\<close> is the fixed part of the message and \<open>cause\<close> the
  exception whose text the handler appends to it, when there is one.
\<close>

datatype 'f exn =
    ValueError_api_key
  | ValueError_cost_limit 'f 'f
  | ValueError_int string
  | KeyError string
  | IndexError
  | AttributeError
  | TypeError
  | OSError
  | APIError string
  | HTTPException nat string "'f exn option"

section \<open>config.py\<close>

record 'f ModelConfig =
  api_name :: string
  display_name :: string
  input_cost_per_m :: 'f
  output_cost_per_m :: 'f

definition MODELS :: "'f pyfloat \<Rightarrow> (string \<times> 'f ModelConfig) list" where
  "MODELS F =
    [(''opus'', \<lparr>api_name = ''claude-opus-4-6'', display_name = ''Opus 4.6'',
        input_cost_per_m = float_lit F ''15.0'', output_cost_per_m = float_lit F ''75.0''\<rparr>),
     (''sonnet'', \<lparr>api_name = ''claude-sonnet-4-5-20250929'', display_name = ''Sonnet 4.5'',
        input_cost_per_m = float_lit F ''3.0'', output_cost_per_m = float_lit F ''15.0''\<rparr>),
     (''haiku'', \<lparr>api_name = ''claude-haiku-4-5-20251001'', display_name = ''Haiku 4.5'',
        input_cost_per_m = float_lit F ''0.80'', output_cost_per_m = float_lit F ''4.0''\<rparr>)]"

record 'f AppConfig =
  model_key :: string
  timer_request :: int
  timer_document :: int
  timer_predictions :: int
  timer_data :: int
  cost_limit :: 'f
  domain :: "string option"
  difficulty :: string

text \<open>The property \<open>AppConfig.model\<close>: \<open>MODELS[self.model_key]\<close> raises KeyError.\<close>

definition model :: "'f pyfloat \<Rightarrow> 'f AppConfig \<Rightarrow> 'f exn + 'f ModelConfig" where
  "model F cfg =
    (case map_of (MODELS F) (model_key cfg) of
       None \<Rightarrow> Inl (KeyError (model_key cfg))
     | Some m \<Rightarrow> Inr m)"

definition get_api_key :: "string \<Rightarrow> 'f exn + string" where
  "get_api_key key = (if key = [] then Inl ValueError_api_key else Inr key)"

section \<open>token\_tracker.py\<close>

record call_record =
  label :: string
  input_tokens :: int
  output_tokens :: int

record TokenTracker =
  total_input_tokens :: int
  total_output_tokens :: int
  call_count :: int
  calls :: "call_record list"

definition new_tracker :: TokenTracker where
  "new_tracker =
    \<lparr>total_input_tokens = 0, total_output_tokens = 0, call_count = 0, calls = []\<rparr>"

definition track :: "TokenTracker \<Rightarrow> int \<Rightarrow> int \<Rightarrow> string \<Rightarrow> TokenTracker" where
  "track t i out call_label =
    t\<lparr>total_input_tokens := total_input_tokens t + i,
      total_output_tokens := total_output_tokens t + out,
      call_count := call_count t + 1,
      calls := calls t @ [\<lparr>label = call_label, input_tokens = i, output_tokens = out\<rparr>]\<rparr>"

definition estimate_cost :: "'f pyfloat \<Rightarrow> TokenTracker \<Rightarrow> 'f ModelConfig \<Rightarrow> 'f" where
  "estimate_cost F t m =
    (let input_cost = float_mul F (int_truediv F (total_input_tokens t) 1000000) (input_cost_per_m m);
         output_cost = float_mul F (int_truediv F (total_output_tokens t) 1000000) (output_cost_per_m m)
     in float_round F (float_add F input_cost output_cost) 4)"

definition call_to_json :: "call_record \<Rightarrow> 'f json" where
  "call_to_json c =
    JObj [(''label'', JStr (label c)), (''input_tokens'', JInt (input_tokens c)),
          (''output_tokens'', JInt (output_tokens c))]"

definition to_dict :: "'f pyfloat \<Rightarrow> TokenTracker \<Rightarrow> 'f ModelConfig \<Rightarrow> 'f json" where
  "to_dict F t m =
    JObj [(''total_input_tokens'', JInt (total_input_tokens t)),
          (''total_output_tokens'', JInt (total_output_tokens t)),
          (''call_count'', JInt (call_count t)),
          (''calls'', JArr (map call_to_json (calls t))),
          (''estimated_cost'', JFloat (estimate_cost F t m))]"

text \<open>A run of \<open>track\<close> calls, each given as (input tokens, output tokens, label).\<close>

fun track_all :: "TokenTracker \<Rightarrow> (int \<times> int \<times> string) list \<Rightarrow> TokenTracker" where
  "track_all t [] = t"
| "track_all t ((i, out, l) # cs) = track_all (track t i out l) cs"

section \<open>prompts.py: content scaling by timer length\<close>

record length_guidance =
  lg_request :: string
  lg_document :: string
  lg_data_rows :: string
  lg_key_concepts :: string
  lg_data_points :: string

definition get_length_guidance :: "int \<Rightarrow> length_guidance" where
  "get_length_guidance seconds =
    (if seconds \<le> 90 then
       \<lparr>lg_request = ''1 short paragraph (2-3 sentences)'',
        lg_document = ''2-3 sentences with 1-2 key facts each'',
        lg_data_rows = ''3-5 rows'',
        lg_key_concepts = ''1-2'',
        lg_data_points = ''2-3''\<rparr>
     else if seconds \<le> 180 then
       \<lparr>lg_request = ''1 paragraph (4-5 sentences)'',
        lg_document = ''1 paragraph (4-6 sentences) with 2-3 key facts each'',
        lg_data_rows = ''5-7 rows'',
        lg_key_concepts = ''2-3'',
        lg_data_points = ''3-4''\<rparr>
     else if seconds \<le> 300 then
       \<lparr>lg_request = ''1-2 paragraphs'',
        lg_document = ''1-2 paragraphs with 3-4 key facts each'',
        lg_data_rows = ''7-10 rows'',
        lg_key_concepts = ''3-4'',
        lg_data_points = ''3-4''\<rparr>
     else
       \<lparr>lg_request = ''2-3 paragraphs'',
        lg_document = ''2 full paragraphs with 4-5 key facts each'',
        lg_data_rows = ''10-14 rows'',
        lg_key_concepts = ''3-5'',
        lg_data_points = ''3-5''\<rparr>)"

text \<open>
  The values \<open>get_scenario_user_prompt\<close> puts into its content-length block, in the order
  of the template: request length, document length, data rows, key concepts per document,
  data analysis points. The request line reads the request timer, the document and
  key-concept lines the document timer, the data lines the data timer.
\<close>

definition length_instructions :: "int \<Rightarrow> int \<Rightarrow> int \<Rightarrow> string list" where
  "length_instructions t_request t_document t_data =
    (let request_guide = get_length_guidance t_request;
         doc_guide = get_length_guidance t_document;
         data_guide = get_length_guidance t_data
     in [lg_request request_guide, lg_document doc_guide, lg_data_rows data_guide,
         lg_key_concepts doc_guide, lg_data_points data_guide])"

text \<open>
  The lookup as the specification words it: a tier chosen by the duration alone, and a
  fixed tuple per tier.
\<close>

datatype tier = Tier90 | Tier180 | Tier300 | TierLonger

definition tier_of :: "int \<Rightarrow> tier" where
  "tier_of seconds =
    (if seconds \<le> 90 then Tier90 else if seconds \<le> 180 then Tier180
     else if seconds \<le> 300 then Tier300 else TierLonger)"

fun tier_table :: "tier \<Rightarrow> string \<times> string \<times> string \<times> string \<times> string" where
  "tier_table Tier90 =
    (''1 short paragraph (2-3 sentences)'', ''2-3 sentences with 1-2 key facts each'',
     ''3-5 rows'', ''1-2'', ''2-3'')"
| "tier_table Tier180 =
    (''1 paragraph (4-5 sentences)'', ''1 paragraph (4-6 sentences) with 2-3 key facts each'',
     ''5-7 rows'', ''2-3'', ''3-4'')"
| "tier_table Tier300 =
    (''1-2 paragraphs'', ''1-2 paragraphs with 3-4 key facts each'',
     ''7-10 rows'', ''3-4'', ''3-4'')"
| "tier_table TierLonger =
    (''2-3 paragraphs'', ''2 full paragraphs with 4-5 key facts each'',
     ''10-14 rows'', ''3-5'', ''3-5'')"

definition guidance_tuple :: "length_guidance \<Rightarrow> string \<times> string \<times> string \<times> string \<times> string" where
  "guidance_tuple g =
    (lg_request g, lg_document g, lg_data_rows g, lg_key_concepts g, lg_data_points g)"

section \<open>Python string and container operations\<close>

text \<open>\<open>str.isspace\<close> on the characters below 256, which is what \<open>str.strip()\<close> removes.\<close>

definition isspace :: "char \<Rightarrow> bool" where
  "isspace c =
    (let n = (of_char c :: nat)
     in (9 \<le> n \<and> n \<le> 13) \<or> (28 \<le> n \<and> n \<le> 32) \<or> n = 133 \<or> n = 160)"

definition strip :: "string \<Rightarrow> string" where
  "strip s = rev (dropWhile isspace (rev (dropWhile isspace s)))"

definition startswith :: "string \<Rightarrow> string \<Rightarrow> bool" where
  "startswith s p = (take (length p) s = p)"

definition endswith :: "string \<Rightarrow> string \<Rightarrow> bool" where
  "endswith s p = (length p \<le> length s \<and> drop (length s - length p) s = p)"

text \<open>\<open>s.split(c, 1)\<close> for a separator of one character.\<close>

definition split1 :: "string \<Rightarrow> char \<Rightarrow> string list" where
  "split1 s c =
    (if c \<in> set s then [takeWhile (\<lambda>x. x \<noteq> c) s, tl (dropWhile (\<lambda>x. x \<noteq> c) s)] else [s])"

text \<open>The start of the rightmost occurrence of \<open>sep\<close> in \<open>s\<close>.\<close>

fun rfind :: "string \<Rightarrow> string \<Rightarrow> nat option" where
  "rfind [] sep = (if sep = [] then Some 0 else None)"
| "rfind (c # cs) sep =
    (case rfind cs sep of
       Some k \<Rightarrow> Some (Suc k)
     | None \<Rightarrow> if startswith (c # cs) sep then Some 0 else None)"

text \<open>\<open>s.rsplit(sep, 1)\<close> for a non-empty separator.\<close>

definition rsplit1 :: "string \<Rightarrow> string \<Rightarrow> string list" where
  "rsplit1 s sep =
    (case rfind s sep of
       None \<Rightarrow> [s]
     | Some k \<Rightarrow> [take k s, drop (k + length sep) s])"

text \<open>\<open>xs[i]\<close> for an index that is not negative: IndexError out of range.\<close>

definition subscript :: "'a list \<Rightarrow> nat \<Rightarrow> 'f exn + 'a" where
  "subscript xs i = (if i < length xs then Inr (xs ! i) else Inl IndexError)"

text \<open>
  \<open>obj.get(key, default)\<close>: only a dict has the method; on any other JSON value the
  attribute lookup raises AttributeError.
\<close>

definition dict_get :: "'f json \<Rightarrow> string \<Rightarrow> 'f json \<Rightarrow> 'f exn + 'f json" where
  "dict_get obj key dflt =
    (case obj of
       JObj kvs \<Rightarrow> Inr (case map_of kvs key of Some v \<Rightarrow> v | None \<Rightarrow> dflt)
     | _ \<Rightarrow> Inl AttributeError)"

text \<open>
  \<open>obj[key]\<close> with a string key: KeyError on a dict that lacks it, TypeError on every
  other JSON value.
\<close>

definition getitem :: "'f json \<Rightarrow> string \<Rightarrow> 'f exn + 'f json" where
  "getitem obj key =
    (case obj of
       JObj kvs \<Rightarrow> (case map_of kvs key of Some v \<Rightarrow> Inr v | None \<Rightarrow> Inl (KeyError key))
     | _ \<Rightarrow> Inl TypeError)"

text \<open>Whether \<open>sub\<close> occurs in \<open>s\<close> as a substring.\<close>

fun contains_substring :: "string \<Rightarrow> string \<Rightarrow> bool" where
  "contains_substring [] sub = (sub = [])"
| "contains_substring (c # cs) sub = (startswith (c # cs) sub \<or> contains_substring cs sub)"

text \<open>
  \<open>key in obj\<close> with a string key: a key of a dict, an element of a list, a substring of
  a string; TypeError on \<open>None\<close>, booleans and numbers, which are not iterable.
\<close>

definition py_in :: "string \<Rightarrow> 'f json \<Rightarrow> 'f exn + bool" where
  "py_in key obj =
    (case obj of
       JObj kvs \<Rightarrow> Inr (key \<in> set (map fst kvs))
     | JArr xs \<Rightarrow> Inr (JStr key \<in> set xs)
     | JStr s \<Rightarrow> Inr (contains_substring s key)
     | _ \<Rightarrow> Inl TypeError)"

section \<open>The environment of the server\<close>

record request =
  rq_model :: string
  rq_max_tokens :: int
  rq_system :: string
  rq_user :: string

text \<open>
  What \<open>client.messages.create\<close> returns: the text of each content block, and the usage.
\<close>

record api_response =
  content :: "string list"
  usage_input_tokens :: int
  usage_output_tokens :: int

text \<open>
  The prompt texts of prompts.py. The six system prompts are constants; the builders of the
  user prompts are functions of their arguments. A builder that subscripts the scenario or
  the feedback raises when a key is missing, so those return a sum.
\<close>

record 'f prompts =
  SCENARIO_SYSTEM_PROMPT :: string
  get_scenario_user_prompt :: "string option \<Rightarrow> string \<Rightarrow> int \<Rightarrow> int \<Rightarrow> int \<Rightarrow> string"
  REVIEW_SYSTEM_PROMPT :: string
  get_review_user_prompt :: "'f json \<Rightarrow> (string \<times> string) list \<Rightarrow> 'f exn + string"
  IMPROVEMENT_SYSTEM_PROMPT :: string
  get_improvement_user_prompt :: "'f json list \<Rightarrow> 'f json \<Rightarrow> 'f exn + string"
  CHECKLIST_REVIEW_SYSTEM_PROMPT :: string
  get_checklist_review_prompt :: "'f json \<Rightarrow> 'f json list \<Rightarrow> 'f json \<Rightarrow> 'f exn + string"
  QUICK_SCENARIO_SYSTEM_PROMPT :: string
  get_quick_scenario_user_prompt :: "string \<Rightarrow> string option \<Rightarrow> string"
  QUICK_GRADE_SYSTEM_PROMPT :: string
  get_quick_grade_user_prompt ::
    "'f json \<Rightarrow> 'f json \<Rightarrow> 'f json \<Rightarrow> 'f json \<Rightarrow> string \<Rightarrow> 'f exn + string"

text \<open>
  Everything the modelled code reads and does not own: the float arithmetic, the prompt
  texts, the global \<open>app_config\<close>, the credential in the process environment, the oracle
  behind \<open>client.messages.create\<close> (a function of the requests placed before and of the
  request), \<open>json.loads\<close> (\<open>Inl msg\<close> is JSONDecodeError with that text) and \<open>json.dumps\<close>,
  whether opening a file for writing succeeds, and the clock.
\<close>

record 'f env =
  floats :: "'f pyfloat"
  prompt_texts :: "'f prompts"
  app_config :: "'f AppConfig"
  ANTHROPIC_API_KEY :: string
  messages_create :: "request list \<Rightarrow> request \<Rightarrow> 'f exn + api_response"
  json_loads :: "string \<Rightarrow> string + 'f json"
  json_dumps :: "'f json \<Rightarrow> string"
  disk_writable :: bool
  today :: string
  now_isoformat :: string

section \<open>claude\_client.py\<close>

text \<open>Lines 110 to 115 of \<open>_call_claude\<close>: strip the text and remove a Markdown fence.\<close>

definition strip_fence :: "string \<Rightarrow> 'f exn + string" where
  "strip_fence raw_text =
    (let cleaned = strip raw_text
     in if startswith cleaned ''```'' then
          (case subscript (split1 cleaned (CHR 0x0A)) 1 of
             Inl e \<Rightarrow> Inl e
           | Inr cleaned1 \<Rightarrow>
               (case subscript (rsplit1 cleaned1 ''```'') 0 of
                  Inl e \<Rightarrow> Inl e
                | Inr cleaned2 \<Rightarrow> Inr (strip cleaned2)))
        else Inr cleaned)"

text \<open>Lines 117 to 126: parse, and wrap the raw text when the JSON does not parse.\<close>

definition parse_json :: "'f env \<Rightarrow> string \<Rightarrow> string \<Rightarrow> 'f json" where
  "parse_json E raw_text cleaned =
    (case json_loads E cleaned of
       Inr v \<Rightarrow> v
     | Inl msg \<Rightarrow>
         JObj [(''error'', JStr ''Failed to parse JSON response''),
               (''raw_response'', JStr raw_text),
               (''parse_error'', JStr msg)])"

text \<open>
  \<open>_call_claude\<close>. The tracker is an object the callers share with the session, so the
  tracker after the call is returned on every path, and so is the list of the requests
  placed with the oracle.
\<close>

definition call_claude ::
  "'f env \<Rightarrow> string \<Rightarrow> string \<Rightarrow> TokenTracker \<Rightarrow> string \<Rightarrow> int \<Rightarrow> request list
   \<Rightarrow> ('f exn + 'f json) \<times> TokenTracker \<times> request list" where
  "call_claude E system_prompt user_prompt tracker call_label max_tokens placed =
    (case get_api_key (ANTHROPIC_API_KEY E) of
       Inl e \<Rightarrow> (Inl e, tracker, placed)
     | Inr key \<Rightarrow>
     (case model (floats E) (app_config E) of
       Inl e \<Rightarrow> (Inl e, tracker, placed)
     | Inr m \<Rightarrow>
       let current_cost = estimate_cost (floats E) tracker m
       in if float_ge (floats E) current_cost (cost_limit (app_config E)) then
            (Inl (ValueError_cost_limit current_cost (cost_limit (app_config E))), tracker, placed)
          else
            let rq = \<lparr>rq_model = api_name m, rq_max_tokens = max_tokens,
                      rq_system = system_prompt, rq_user = user_prompt\<rparr>
            in (case messages_create E placed rq of
                  Inl e \<Rightarrow> (Inl e, tracker, placed @ [rq])
                | Inr response \<Rightarrow>
                    let tracker' = track tracker (usage_input_tokens response)
                                     (usage_output_tokens response) call_label
                    in (case subscript (content response) 0 of
                          Inl e \<Rightarrow> (Inl e, tracker', placed @ [rq])
                        | Inr raw_text \<Rightarrow>
                            (case strip_fence raw_text of
                               Inl e \<Rightarrow> (Inl e, tracker', placed @ [rq])
                             | Inr cleaned \<Rightarrow>
                                 (Inr (parse_json E raw_text cleaned), tracker', placed @ [rq]))))))"

text \<open>The six operations: each builds its user prompt, then calls the gateway.\<close>

definition generate_scenario ::
  "'f env \<Rightarrow> TokenTracker \<Rightarrow> request list \<Rightarrow> ('f exn + 'f json) \<times> TokenTracker \<times> request list" where
  "generate_scenario E tracker placed =
    call_claude E (SCENARIO_SYSTEM_PROMPT (prompt_texts E))
      (get_scenario_user_prompt (prompt_texts E) (domain (app_config E))
         (difficulty (app_config E)) (timer_request (app_config E))
         (timer_document (app_config E)) (timer_data (app_config E)))
      tracker ''scenario_generation'' 8192 placed"

definition generate_review ::
  "'f env \<Rightarrow> 'f json \<Rightarrow> (string \<times> string) list \<Rightarrow> TokenTracker \<Rightarrow> request list
   \<Rightarrow> ('f exn + 'f json) \<times> TokenTracker \<times> request list" where
  "generate_review E scenario user_responses tracker placed =
    (case get_review_user_prompt (prompt_texts E) scenario user_responses of
       Inl e \<Rightarrow> (Inl e, tracker, placed)
     | Inr user_prompt \<Rightarrow>
         call_claude E (REVIEW_SYSTEM_PROMPT (prompt_texts E)) user_prompt tracker
           ''review'' 4096 placed)"

definition generate_improvement_comparison ::
  "'f env \<Rightarrow> 'f json list \<Rightarrow> 'f json \<Rightarrow> TokenTracker \<Rightarrow> request list
   \<Rightarrow> ('f exn + 'f json) \<times> TokenTracker \<times> request list" where
  "generate_improvement_comparison E past_summaries current_feedback tracker placed =
    (case get_improvement_user_prompt (prompt_texts E) past_summaries current_feedback of
       Inl e \<Rightarrow> (Inl e, tracker, placed)
     | Inr user_prompt \<Rightarrow>
         call_claude E (IMPROVEMENT_SYSTEM_PROMPT (prompt_texts E)) user_prompt tracker
           ''improvement_comparison'' 1024 placed)"

definition review_checklist ::
  "'f env \<Rightarrow> 'f json \<Rightarrow> 'f json list \<Rightarrow> 'f json \<Rightarrow> TokenTracker \<Rightarrow> request list
   \<Rightarrow> ('f exn + 'f json) \<times> TokenTracker \<times> request list" where
  "review_checklist E document checklist rubric_key_concepts tracker placed =
    (case get_checklist_review_prompt (prompt_texts E) document checklist rubric_key_concepts of
       Inl e \<Rightarrow> (Inl e, tracker, placed)
     | Inr user_prompt \<Rightarrow>
         call_claude E (CHECKLIST_REVIEW_SYSTEM_PROMPT (prompt_texts E)) user_prompt tracker
           ''checklist_review'' 1024 placed)"

definition generate_quick_scenario ::
  "'f env \<Rightarrow> string \<Rightarrow> string option \<Rightarrow> TokenTracker \<Rightarrow> request list
   \<Rightarrow> ('f exn + 'f json) \<times> TokenTracker \<times> request list" where
  "generate_quick_scenario E duration_mode dmn tracker placed =
    call_claude E (QUICK_SCENARIO_SYSTEM_PROMPT (prompt_texts E))
      (get_quick_scenario_user_prompt (prompt_texts E) duration_mode dmn)
      tracker ''quick_scenario'' 2048 placed"

definition grade_quick_response ::
  "'f env \<Rightarrow> 'f json \<Rightarrow> 'f json \<Rightarrow> 'f json \<Rightarrow> 'f json \<Rightarrow> string \<Rightarrow> TokenTracker \<Rightarrow> request list
   \<Rightarrow> ('f exn + 'f json) \<times> TokenTracker \<times> request list" where
  "grade_quick_response E question documents key_facts ideal_response user_response tracker placed =
    (case get_quick_grade_user_prompt (prompt_texts E) question documents key_facts
            ideal_response user_response of
       Inl e \<Rightarrow> (Inl e, tracker, placed)
     | Inr user_prompt \<Rightarrow>
         call_claude E (QUICK_GRADE_SYSTEM_PROMPT (prompt_texts E)) user_prompt tracker
           ''quick_grade'' 1024 placed)"

section \<open>session\_store.py\<close>

text \<open>
  A directory is the list of its files, each a name and its text. \<open>_ensure_dir\<close> creates
  the directory when it is missing, which leaves this list as it is (empty at first).
\<close>

type_synonym directory = "(string \<times> string) list"

text \<open>\<open>Path.stem\<close>: the name without its last suffix.\<close>

definition stem :: "string \<Rightarrow> string" where
  "stem name =
    (case rfind name ''.'' of
       Some i \<Rightarrow> if 0 < i \<and> i < length name - 1 then take i name else name
     | None \<Rightarrow> name)"

text \<open>\<open>name.split("_")[-1]\<close>: what follows the last underscore.\<close>

definition last_piece :: "string \<Rightarrow> string" where
  "last_piece name = rev (takeWhile (\<lambda>c. c \<noteq> CHR ''_'') (rev name))"

definition isdigit :: "char \<Rightarrow> bool" where
  "isdigit c = (48 \<le> (of_char c :: nat) \<and> (of_char c :: nat) \<le> 57)"

definition digits_value :: "string \<Rightarrow> nat" where
  "digits_value ds = foldl (\<lambda>acc c. 10 * acc + ((of_char c :: nat) - 48)) 0 ds"

definition parse_digits :: "string \<Rightarrow> 'f exn + nat" where
  "parse_digits ds =
    (if ds \<noteq> [] \<and> list_all isdigit ds then Inr (digits_value ds) else Inl (ValueError_int ds))"

text \<open>
  The whitespace \<open>int()\<close> skips around the literal. On a text of ASCII characters these
  are the space and the characters 9 to 13 only; when the text holds a character beyond
  ASCII, every character of \<open>str.isspace\<close> counts, as the text is first rewritten with
  spaces in their place.
\<close>

definition isspace_ascii :: "char \<Rightarrow> bool" where
  "isspace_ascii c = (let n = (of_char c :: nat) in (9 \<le> n \<and> n \<le> 13) \<or> n = 32)"

definition int_strip :: "string \<Rightarrow> string" where
  "int_strip s =
    (if list_all (\<lambda>c. (of_char c :: nat) < 128) s then
       rev (dropWhile isspace_ascii (rev (dropWhile isspace_ascii s)))
     else strip s)"

text \<open>
  \<open>int(s)\<close> on a text without underscores (the last piece of a split at underscores has
  none): surrounding whitespace, an optional sign, decimal digits.
\<close>

definition py_int :: "string \<Rightarrow> 'f exn + int" where
  "py_int s =
    (case int_strip s of
       [] \<Rightarrow> Inl (ValueError_int s)
     | c # r \<Rightarrow>
         if c = CHR ''-'' then
           (case (parse_digits r :: 'f exn + nat) of Inl e \<Rightarrow> Inl (ValueError_int s) | Inr n \<Rightarrow> Inr (- int n))
         else if c = CHR ''+'' then
           (case (parse_digits r :: 'f exn + nat) of Inl e \<Rightarrow> Inl (ValueError_int s) | Inr n \<Rightarrow> Inr (int n))
         else
           (case (parse_digits (c # r) :: 'f exn + nat) of Inl e \<Rightarrow> Inl (ValueError_int s) | Inr n \<Rightarrow> Inr (int n)))"

definition digit_char :: "nat \<Rightarrow> char" where
  "digit_char d = char_of (48 + d)"

fun str_nat :: "nat \<Rightarrow> string" where
  "str_nat n = (if n < 10 then [digit_char n] else str_nat (n div 10) @ [digit_char (n mod 10)])"

definition zfill :: "nat \<Rightarrow> string \<Rightarrow> string" where
  "zfill w s = replicate (w - length s) (CHR ''0'') @ s"

text \<open>The format \<open>{n:03d}\<close>: zeros after the sign up to a width of three.\<close>

definition format_03d :: "int \<Rightarrow> string" where
  "format_03d n =
    (if n < 0 then CHR ''-'' # zfill 2 (str_nat (nat (- n))) else zfill 3 (str_nat (nat n)))"

text \<open>The first exception of a list comprehension, or all its values.\<close>

fun collect :: "('e + 'a) list \<Rightarrow> 'e + 'a list" where
  "collect [] = Inr []"
| "collect (Inl e # rs) = Inl e"
| "collect (Inr x # rs) = (case collect rs of Inl e \<Rightarrow> Inl e | Inr xs \<Rightarrow> Inr (x # xs))"

text \<open>\<open>max\<close> of a list that is not empty.\<close>

definition list_max :: "int list \<Rightarrow> int" where
  "list_max xs = fold max (tl xs) (hd xs)"

text \<open>
  The files \<open>glob(f"{today}_*.json")\<close> yields. The date has digits and hyphens only, so
  the pattern is a prefix, anything, and a suffix.
\<close>

definition glob_day :: "string \<Rightarrow> directory \<Rightarrow> directory" where
  "glob_day day files =
    filter (\<lambda>(name, text). startswith name (day @ ''_'') \<and> endswith name ''.json'' \<and>
                          length (day @ ''_'') + length ''.json'' \<le> length name) files"

definition glob_json :: "directory \<Rightarrow> directory" where
  "glob_json files = filter (\<lambda>(name, text). endswith name ''.json'') files"

definition generate_session_id :: "'f env \<Rightarrow> directory \<Rightarrow> 'f exn + string" where
  "generate_session_id E files =
    (let existing = map (\<lambda>(name, text). stem name) (glob_day (today E) files)
     in if existing \<noteq> [] then
          (case collect (map (\<lambda>name. py_int (last_piece name)) existing) of
             Inl e \<Rightarrow> Inl e
           | Inr counters \<Rightarrow> Inr (today E @ ''_'' @ format_03d (list_max counters + 1)))
        else Inr (today E @ ''_'' @ format_03d 1))"

text \<open>\<open>save_session\<close>: the file of that name is created or replaced.\<close>

definition save_session :: "'f env \<Rightarrow> string \<Rightarrow> 'f json \<Rightarrow> directory \<Rightarrow> 'f exn + directory" where
  "save_session E session_id data files =
    (if disk_writable E then
       Inr (AList.update (session_id @ ''.json'') (json_dumps E data) files)
     else Inl OSError)"

text \<open>\<open>sorted(paths, reverse=True)\<close>: descending by name, stable.\<close>

definition sorted_reverse :: "directory \<Rightarrow> directory" where
  "sorted_reverse files = rev (sort_key fst (rev files))"

text \<open>A failing step ends the whole computation: the exception propagates.\<close>

definition and_then :: "'e + 'a \<Rightarrow> ('a \<Rightarrow> 'e + 'b) \<Rightarrow> 'e + 'b" where
  "and_then m f = (case m of Inl e \<Rightarrow> Inl e | Inr x \<Rightarrow> f x)"

text \<open>The dict \<open>list_sessions\<close> appends for one file, its values evaluated in order.\<close>

definition session_summary :: "string \<Rightarrow> 'f json \<Rightarrow> 'f exn + 'f json" where
  "session_summary name data =
    and_then (dict_get data ''timestamp'' (JStr [])) (\<lambda>ts.
    and_then (dict_get data ''domain'' (JStr ''unknown'')) (\<lambda>dm.
    and_then (dict_get data ''difficulty'' (JStr ''unknown'')) (\<lambda>df.
    and_then (dict_get data ''model_used'' (JStr ''unknown'')) (\<lambda>mu.
    and_then (dict_get data ''feedback'' (JObj [])) (\<lambda>fb.
    and_then (dict_get fb ''overall'' (JObj [])) (\<lambda>ov.
    and_then (dict_get ov ''score'' JNull) (\<lambda>score.
    and_then (dict_get data ''token_usage'' (JObj [])) (\<lambda>tu.
    and_then (dict_get tu ''estimated_cost'' JNull) (\<lambda>cost.
      Inr (JObj [(''session_id'', JStr (stem name)), (''timestamp'', ts), (''domain'', dm),
                 (''difficulty'', df), (''model_used'', mu), (''overall_score'', score),
                 (''estimated_cost'', cost)]))))))))))"

text \<open>
  The loop of \<open>list_sessions\<close>. The handler catches JSONDecodeError and KeyError and goes
  on with the next file; any other exception leaves the function.
\<close>

fun list_sessions_loop :: "'f env \<Rightarrow> directory \<Rightarrow> 'f json list \<Rightarrow> 'f exn + 'f json list" where
  "list_sessions_loop E [] sessions = Inr sessions"
| "list_sessions_loop E ((name, text) # rest) sessions =
    (case json_loads E text of
       Inl msg \<Rightarrow> list_sessions_loop E rest sessions
     | Inr data \<Rightarrow>
         (case session_summary name data of
            Inl (KeyError k) \<Rightarrow> list_sessions_loop E rest sessions
          | Inl e \<Rightarrow> Inl e
          | Inr entry \<Rightarrow> list_sessions_loop E rest (sessions @ [entry])))"

definition list_sessions :: "'f env \<Rightarrow> directory \<Rightarrow> 'f exn + 'f json list" where
  "list_sessions E files = list_sessions_loop E (sorted_reverse (glob_json files)) []"

text \<open>The truth value of a JSON value, as \<open>if overall:\<close> tests it.\<close>

definition truthy :: "'f pyfloat \<Rightarrow> 'f json \<Rightarrow> bool" where
  "truthy F v =
    (case v of
       JNull \<Rightarrow> False
     | JBool b \<Rightarrow> b
     | JInt n \<Rightarrow> n \<noteq> 0
     | JFloat x \<Rightarrow> float_bool F x
     | JStr s \<Rightarrow> s \<noteq> []
     | JArr xs \<Rightarrow> xs \<noteq> []
     | JObj kvs \<Rightarrow> kvs \<noteq> [])"

text \<open>
  One file of \<open>get_past_summaries\<close>: the summary to append, or nothing for a session
  without an overall feedback.
\<close>

definition past_summary :: "'f pyfloat \<Rightarrow> string \<Rightarrow> 'f json \<Rightarrow> 'f exn + 'f json option" where
  "past_summary F name data =
    and_then (dict_get data ''feedback'' (JObj [])) (\<lambda>feedback.
    and_then (dict_get feedback ''overall'' (JObj [])) (\<lambda>overall.
      if truthy F overall then
        and_then (dict_get overall ''score'' JNull) (\<lambda>score.
        and_then (dict_get overall ''summary'' (JStr [])) (\<lambda>summary.
        and_then (dict_get overall ''top_improvement'' (JStr [])) (\<lambda>top.
          Inr (Some (JObj [(''session_id'', JStr (stem name)), (''overall_score'', score),
                           (''summary'', summary), (''top_improvement'', top)])))))
      else Inr None))"

fun past_summaries_loop ::
  "'f env \<Rightarrow> nat \<Rightarrow> directory \<Rightarrow> 'f json list \<Rightarrow> 'f exn + 'f json list" where
  "past_summaries_loop E limit [] summaries = Inr summaries"
| "past_summaries_loop E limit ((name, text) # rest) summaries =
    (if length summaries \<ge> limit then Inr summaries
     else
       (case json_loads E text of
          Inl msg \<Rightarrow> past_summaries_loop E limit rest summaries
        | Inr data \<Rightarrow>
            (case past_summary (floats E) name data of
               Inl (KeyError k) \<Rightarrow> past_summaries_loop E limit rest summaries
             | Inl e \<Rightarrow> Inl e
             | Inr None \<Rightarrow> past_summaries_loop E limit rest summaries
             | Inr (Some entry) \<Rightarrow> past_summaries_loop E limit rest (summaries @ [entry]))))"

definition get_past_summaries :: "'f env \<Rightarrow> nat \<Rightarrow> directory \<Rightarrow> 'f exn + 'f json list" where
  "get_past_summaries E limit files =
    past_summaries_loop E limit (sorted_reverse (glob_json files)) []"

text \<open>The quick sessions live in a directory of their own, with the prefix \<open>quick_\<close>.\<close>

definition save_quick_session :: "'f env \<Rightarrow> string \<Rightarrow> 'f json \<Rightarrow> directory \<Rightarrow> 'f exn + directory" where
  "save_quick_session E session_id data files =
    (if disk_writable E then
       Inr (AList.update (session_id @ ''.json'') (json_dumps E data) files)
     else Inl OSError)"

section \<open>main.py\<close>

text \<open>
  An entry of \<open>active_sessions\<close>. The two dicts of the notes keep their insertion order,
  which is the order of the persisted record.
\<close>

record 'f session =
  s_session_id :: string
  s_timestamp :: string
  s_model_used :: string
  s_domain :: string
  s_difficulty :: string
  s_scenario :: "'f json"
  user_responses :: "(string \<times> string) list"
  time_used :: "(string \<times> int) list"
  s_tracker :: TokenTracker

record 'f quick_session =
  q_session_id :: string
  q_timestamp :: string
  q_duration_mode :: string
  q_scenario :: "'f json"
  q_tracker :: TokenTracker

text \<open>
  What the server owns and changes: the two in-memory tables, the two directories of
  persisted records, and the requests placed with the oracle so far.
\<close>

record 'f state =
  active_sessions :: "string \<rightharpoonup> 'f session"
  active_quick_sessions :: "string \<rightharpoonup> 'f quick_session"
  sessions_dir :: directory
  quick_sessions_dir :: directory
  placed :: "request list"

text \<open>
  The tracker is one object, shared by the session dict and the gateway: what the gateway
  tracked is in the session whether the endpoint then returns or raises.
\<close>

definition tracked :: "'f state \<Rightarrow> string \<Rightarrow> 'f session \<Rightarrow> TokenTracker \<Rightarrow> request list \<Rightarrow> 'f state" where
  "tracked s session_id session t p =
    s\<lparr>active_sessions := (active_sessions s)(session_id \<mapsto> session\<lparr>s_tracker := t\<rparr>),
      placed := p\<rparr>"

definition quick_tracked ::
  "'f state \<Rightarrow> string \<Rightarrow> 'f quick_session \<Rightarrow> TokenTracker \<Rightarrow> request list \<Rightarrow> 'f state" where
  "quick_tracked s session_id session t p =
    s\<lparr>active_quick_sessions := (active_quick_sessions s)(session_id \<mapsto> session\<lparr>q_tracker := t\<rparr>),
      placed := p\<rparr>"

text \<open>
  The message of the parse-failure branch of \<open>start_session\<close> reads two keys of the
  scenario and slices the raw response; slicing anything but a string or a list raises.
\<close>

definition scenario_failure :: "'f json \<Rightarrow> 'f exn" where
  "scenario_failure scenario =
    (case and_then (dict_get scenario ''error'' JNull) (\<lambda>err.
          and_then (dict_get scenario ''raw_response'' (JStr [])) (\<lambda>raw.
            (case raw of
               JStr t \<Rightarrow> Inr (JStr (take 500 t))
             | JArr xs \<Rightarrow> Inr (JArr (take 500 xs))
             | _ \<Rightarrow> Inl TypeError))) of
       Inl e \<Rightarrow> e
     | Inr raw \<Rightarrow> HTTPException 500 ''Scenario generation failed: '' None)"

definition or_random :: "string option \<Rightarrow> string" where
  "or_random d = (case d of None \<Rightarrow> ''random'' | Some x \<Rightarrow> if x = [] then ''random'' else x)"

definition start_session :: "'f env \<Rightarrow> 'f state \<Rightarrow> ('f exn + 'f json) \<times> 'f state" where
  "start_session E s =
    (case generate_session_id E (sessions_dir s) of
       Inl e \<Rightarrow> (Inl e, s)
     | Inr session_id \<Rightarrow>
         (case generate_scenario E new_tracker (placed s) of
            (Inl e, tracker, p) \<Rightarrow>
              (Inl (HTTPException 500 ''Failed to generate scenario: '' (Some e)), s\<lparr>placed := p\<rparr>)
          | (Inr scenario, tracker, p) \<Rightarrow>
              (case py_in ''error'' scenario of
                 Inl e \<Rightarrow> (Inl e, s\<lparr>placed := p\<rparr>)
               | Inr True \<Rightarrow> (Inl (scenario_failure scenario), s\<lparr>placed := p\<rparr>)
               | Inr False \<Rightarrow>
                   (case model (floats E) (app_config E) of
                      Inl e \<Rightarrow> (Inl e, s\<lparr>placed := p\<rparr>)
                    | Inr m \<Rightarrow>
                        let s' = s\<lparr>placed := p,
                                   active_sessions := (active_sessions s)(session_id \<mapsto>
                                     \<lparr>s_session_id = session_id,
                                      s_timestamp = now_isoformat E,
                                      s_model_used = api_name m,
                                      s_domain = or_random (domain (app_config E)),
                                      s_difficulty = difficulty (app_config E),
                                      s_scenario = scenario,
                                      user_responses = [],
                                      time_used = [],
                                      s_tracker = tracker\<rparr>)\<rparr>
                        in (and_then (getitem scenario ''background'') (\<lambda>background.
                            and_then (getitem scenario ''request'') (\<lambda>req.
                              Inr (JObj
                                [(''session_id'', JStr session_id),
                                 (''background'', background),
                                 (''request'', req),
                                 (''config'', JObj
                                   [(''timer_request'', JInt (timer_request (app_config E))),
                                    (''timer_document'', JInt (timer_document (app_config E))),
                                    (''timer_predictions'', JInt (timer_predictions (app_config E))),
                                    (''timer_data'', JInt (timer_data (app_config E))),
                                    (''timer_background'', JInt (timer_document (app_config E) div 2))]),
                                 (''cost_so_far'', JFloat (estimate_cost (floats E) tracker m))]))),
                            s')))))"

definition valid_steps :: "string list" where
  "valid_steps =
    [''background_notes'', ''deliverable_summary'',
     ''doc1_notes'', ''doc2_notes'', ''doc3_notes'',
     ''data_predictions'', ''data_notes'']"

definition submit_notes ::
  "string \<Rightarrow> string \<Rightarrow> string \<Rightarrow> int \<Rightarrow> 'f state \<Rightarrow> ('f exn + 'f json) \<times> 'f state" where
  "submit_notes session_id step content_text seconds s =
    (case active_sessions s session_id of
       None \<Rightarrow> (Inl (HTTPException 404 ''Session not found'' None), s)
     | Some session \<Rightarrow>
         if step \<notin> set valid_steps then
           (Inl (HTTPException 400 ''Invalid step'' None), s)
         else
           (Inr (JObj [(''status'', JStr ''saved''), (''step'', JStr step)]),
            s\<lparr>active_sessions := (active_sessions s)(session_id \<mapsto>
                 session\<lparr>user_responses := AList.update step content_text (user_responses session),
                         time_used := AList.update step seconds (time_used session)\<rparr>)\<rparr>))"

text \<open>
  Lines 369 to 381 of \<open>review_session\<close>: the optional comparison. Its \<open>except Exception\<close>
  catches whatever the comparison raises; the test before it stands outside the \<open>try\<close>.
\<close>

definition improvement_step ::
  "'f env \<Rightarrow> 'f json list \<Rightarrow> 'f json \<Rightarrow> TokenTracker \<Rightarrow> request list
   \<Rightarrow> 'f exn + ('f json option \<times> TokenTracker \<times> request list)" where
  "improvement_step E past_summaries feedback tracker p =
    (if past_summaries \<noteq> [] then
       (case py_in ''error'' feedback of
          Inl e \<Rightarrow> Inl e
        | Inr True \<Rightarrow> Inr (None, tracker, p)
        | Inr False \<Rightarrow>
            (case generate_improvement_comparison E past_summaries feedback tracker p of
               (Inl e, t', p') \<Rightarrow> Inr (None, t', p')
             | (Inr improvement, t', p') \<Rightarrow> Inr (Some improvement, t', p')))
     else Inr (None, tracker, p))"

definition json_or_null :: "'f json option \<Rightarrow> 'f json" where
  "json_or_null v = (case v of None \<Rightarrow> JNull | Some x \<Rightarrow> x)"

text \<open>Lines 384 to 396: the complete record of the session.\<close>

definition session_data ::
  "'f env \<Rightarrow> 'f ModelConfig \<Rightarrow> 'f session \<Rightarrow> 'f json \<Rightarrow> 'f json option \<Rightarrow> TokenTracker \<Rightarrow> 'f json" where
  "session_data E m session feedback improvement tracker =
    JObj [(''session_id'', JStr (s_session_id session)),
          (''timestamp'', JStr (s_timestamp session)),
          (''model_used'', JStr (s_model_used session)),
          (''domain'', JStr (s_domain session)),
          (''difficulty'', JStr (s_difficulty session)),
          (''scenario'', s_scenario session),
          (''user_responses'', JObj (map (\<lambda>(k, v). (k, JStr v)) (user_responses session))),
          (''time_used'', JObj (map (\<lambda>(k, v). (k, JInt v)) (time_used session))),
          (''feedback'', feedback),
          (''improvement'', json_or_null improvement),
          (''token_usage'', to_dict (floats E) tracker m)]"

definition review_session :: "'f env \<Rightarrow> string \<Rightarrow> 'f state \<Rightarrow> ('f exn + 'f json) \<times> 'f state" where
  "review_session E session_id s =
    (case active_sessions s session_id of
       None \<Rightarrow> (Inl (HTTPException 404 ''Session not found'' None), s)
     | Some session \<Rightarrow>
         (case generate_review E (s_scenario session) (user_responses session)
                 (s_tracker session) (placed s) of
            (Inl e, t1, p1) \<Rightarrow>
              (Inl (HTTPException 500 ''Review failed: '' (Some e)), tracked s session_id session t1 p1)
          | (Inr feedback, t1, p1) \<Rightarrow>
              (case get_past_summaries E 5 (sessions_dir s) of
                 Inl e \<Rightarrow> (Inl e, tracked s session_id session t1 p1)
               | Inr past_summaries \<Rightarrow>
                   (case improvement_step E past_summaries feedback t1 p1 of
                      Inl e \<Rightarrow> (Inl e, tracked s session_id session t1 p1)
                    | Inr (improvement, t2, p2) \<Rightarrow>
                        (case model (floats E) (app_config E) of
                           Inl e \<Rightarrow> (Inl e, tracked s session_id session t2 p2)
                         | Inr m \<Rightarrow>
                             (case save_session E session_id
                                     (session_data E m session feedback improvement t2)
                                     (sessions_dir s) of
                                Inl e \<Rightarrow> (Inl e, tracked s session_id session t2 p2)
                              | Inr files \<Rightarrow>
                                  (Inr (JObj [(''feedback'', feedback),
                                              (''improvement'', json_or_null improvement),
                                              (''token_usage'', to_dict (floats E) t2 m)]),
                                   s\<lparr>active_sessions := (active_sessions s)(session_id := None),
                                     sessions_dir := files,
                                     placed := p2\<rparr>)))))))"

text \<open>
  The grading call of \<open>submit_quick_session\<close> with its arguments, which subscript the
  scenario inside the \<open>try\<close>.
\<close>

definition quick_grading ::
  "'f env \<Rightarrow> 'f json \<Rightarrow> string \<Rightarrow> TokenTracker \<Rightarrow> request list
   \<Rightarrow> ('f exn + 'f json) \<times> TokenTracker \<times> request list" where
  "quick_grading E scenario response tracker p =
    (case getitem scenario ''question'' of
       Inl e \<Rightarrow> (Inl e, tracker, p)
     | Inr question \<Rightarrow>
     (case getitem scenario ''documents'' of
       Inl e \<Rightarrow> (Inl e, tracker, p)
     | Inr documents \<Rightarrow>
     (case getitem scenario ''key_facts'' of
       Inl e \<Rightarrow> (Inl e, tracker, p)
     | Inr key_facts \<Rightarrow>
     (case getitem scenario ''ideal_response'' of
       Inl e \<Rightarrow> (Inl e, tracker, p)
     | Inr ideal_response \<Rightarrow>
         grade_quick_response E question documents key_facts ideal_response response tracker p))))"

definition quick_session_data ::
  "'f env \<Rightarrow> string \<Rightarrow> 'f quick_session \<Rightarrow> string \<Rightarrow> int \<Rightarrow> string \<Rightarrow> 'f json
   \<Rightarrow> TokenTracker \<Rightarrow> 'f exn + 'f json" where
  "quick_session_data E session_id session response seconds device feedback tracker =
    and_then (getitem (q_scenario session) ''question'') (\<lambda>question.
    and_then (getitem (q_scenario session) ''documents'') (\<lambda>documents.
    and_then (getitem (q_scenario session) ''key_facts'') (\<lambda>key_facts.
    and_then (getitem (q_scenario session) ''ideal_response'') (\<lambda>ideal_response.
    and_then (model (floats E) (app_config E)) (\<lambda>m.
      Inr (JObj [(''session_id'', JStr session_id),
                 (''timestamp'', JStr (q_timestamp session)),
                 (''duration_mode'', JStr (q_duration_mode session)),
                 (''question'', question),
                 (''documents'', documents),
                 (''key_facts'', key_facts),
                 (''ideal_response'', ideal_response),
                 (''user_response'', JStr response),
                 (''time_used'', JInt seconds),
                 (''device'', JStr device),
                 (''feedback'', feedback),
                 (''token_usage'', to_dict (floats E) tracker m)]))))))"

definition submit_quick_session ::
  "'f env \<Rightarrow> string \<Rightarrow> string \<Rightarrow> int \<Rightarrow> string \<Rightarrow> 'f state \<Rightarrow> ('f exn + 'f json) \<times> 'f state" where
  "submit_quick_session E session_id response seconds device s =
    (case active_quick_sessions s session_id of
       None \<Rightarrow> (Inl (HTTPException 404 ''Session not found'' None), s)
     | Some session \<Rightarrow>
         (case quick_grading E (q_scenario session) response (q_tracker session) (placed s) of
            (Inl e, t1, p1) \<Rightarrow>
              (Inl (HTTPException 500 ''Grading failed: '' (Some e)),
               quick_tracked s session_id session t1 p1)
          | (Inr feedback, t1, p1) \<Rightarrow>
              (case py_in ''error'' feedback of
                 Inl e \<Rightarrow> (Inl e, quick_tracked s session_id session t1 p1)
               | Inr True \<Rightarrow>
                   (case dict_get feedback ''error'' JNull of
                      Inl e \<Rightarrow> (Inl e, quick_tracked s session_id session t1 p1)
                    | Inr err \<Rightarrow>
                        (Inl (HTTPException 500 ''Grading parse error: '' None),
                         quick_tracked s session_id session t1 p1))
               | Inr False \<Rightarrow>
                   (case quick_session_data E session_id session response seconds device
                           feedback t1 of
                      Inl e \<Rightarrow> (Inl e, quick_tracked s session_id session t1 p1)
                    | Inr data \<Rightarrow>
                        (case save_quick_session E session_id data (quick_sessions_dir s) of
                           Inl e \<Rightarrow> (Inl e, quick_tracked s session_id session t1 p1)
                         | Inr files \<Rightarrow>
                             (Inr (JObj [(''feedback'', feedback)]),
                              s\<lparr>active_quick_sessions := (active_quick_sessions s)(session_id := None),
                                quick_sessions_dir := files,
                                placed := p1\<rparr>))))))"

section \<open>prompts.py: the user prompts\<close>

text \<open>
  The builders of the user prompts are f-strings over the scenario, the feedback and the
  notes. What is modelled of a builder is the list of the values it formats into its
  template, in the order in which the source evaluates them, and the exception of the first
  subscript, method call, iteration or join that raises. Formatting a value into an
  f-string never raises.
\<close>

text \<open>\<open>obj[i]\<close> with an index that is not negative.\<close>

definition getindex :: "'f json \<Rightarrow> nat \<Rightarrow> 'f exn + 'f json" where
  "getindex obj i =
    (case obj of
       JArr xs \<Rightarrow> if i < length xs then Inr (xs ! i) else Inl IndexError
     | JStr t \<Rightarrow> if i < length t then Inr (JStr [t ! i]) else Inl IndexError
     | JObj kvs \<Rightarrow> Inl (KeyError (str_nat i))
     | _ \<Rightarrow> Inl TypeError)"

text \<open>
  Iterating over a JSON value: the items of a list, the characters of a string, the keys
  of a dict; TypeError on anything else.
\<close>

definition iterate :: "'f json \<Rightarrow> 'f exn + 'f json list" where
  "iterate obj =
    (case obj of
       JArr xs \<Rightarrow> Inr xs
     | JStr t \<Rightarrow> Inr (map (\<lambda>c. JStr [c]) t)
     | JObj kvs \<Rightarrow> Inr (map (\<lambda>(k, v). JStr k) kvs)
     | _ \<Rightarrow> Inl TypeError)"

definition is_str :: "'f json \<Rightarrow> bool" where
  "is_str v = (case v of JStr t \<Rightarrow> True | _ \<Rightarrow> False)"

text \<open>
  \<open>', '.join(v)\<close>, and \<open>chr(10).join('- ' + c for c in v)\<close>: the value must be iterable
  and every item a string.
\<close>

definition join_strings :: "'f json \<Rightarrow> 'f exn + 'f json" where
  "join_strings v =
    and_then (iterate v) (\<lambda>items. if list_all is_str items then Inr v else Inl TypeError)"

definition getitem2 :: "'f json \<Rightarrow> string \<Rightarrow> string \<Rightarrow> 'f exn + 'f json" where
  "getitem2 obj k1 k2 = and_then (getitem obj k1) (\<lambda>inner. getitem inner k2)"

text \<open>\<open>scenario['documents'][i][key]\<close>.\<close>

definition document_field :: "'f json \<Rightarrow> nat \<Rightarrow> string \<Rightarrow> 'f exn + 'f json" where
  "document_field scenario i key =
    and_then (getitem scenario ''documents'') (\<lambda>documents.
    and_then (getindex documents i) (\<lambda>document. getitem document key))"

definition format_rubric :: "'f json \<Rightarrow> 'f exn + 'f json list" where
  "format_rubric rubric =
    collect
      [getitem rubric ''deliverable_description'',
       and_then (getitem rubric ''key_concepts_doc1'') join_strings,
       and_then (getitem rubric ''key_concepts_doc2'') join_strings,
       and_then (getitem rubric ''key_concepts_doc3'') join_strings,
       and_then (getitem rubric ''expected_data_patterns'') join_strings,
       and_then (getitem rubric ''data_analysis_points'') join_strings,
       and_then (getitem rubric ''critical_connections'') join_strings]"

text \<open>\<open>user_responses.get(step, default)\<close> on the dict of the notes.\<close>

definition response_or :: "(string \<times> string) list \<Rightarrow> string \<Rightarrow> string \<Rightarrow> 'f json" where
  "response_or responses step dflt =
    JStr (case map_of responses step of Some v \<Rightarrow> v | None \<Rightarrow> dflt)"

definition review_prompt_values ::
  "'f json \<Rightarrow> (string \<times> string) list \<Rightarrow> 'f exn + 'f json list" where
  "review_prompt_values scenario responses =
    and_then (collect
      [getitem2 scenario ''request'' ''from'',
       getitem2 scenario ''request'' ''subject'',
       getitem2 scenario ''request'' ''body'',
       document_field scenario 0 ''title'',
       document_field scenario 0 ''content'',
       document_field scenario 1 ''title'',
       document_field scenario 1 ''content'',
       document_field scenario 2 ''title'',
       document_field scenario 2 ''content'',
       getitem2 scenario ''data'' ''format'',
       getitem2 scenario ''data'' ''description'',
       getitem2 scenario ''data'' ''content'']) (\<lambda>parts.
    and_then (and_then (getitem scenario ''rubric'') format_rubric) (\<lambda>rubric_lines.
      Inr (parts @ rubric_lines @
           [response_or responses ''deliverable_summary'' ''(no response)'',
            response_or responses ''doc1_notes'' ''(no notes)'',
            response_or responses ''doc2_notes'' ''(no notes)'',
            response_or responses ''doc3_notes'' ''(no notes)'',
            response_or responses ''data_predictions'' ''(no predictions)'',
            response_or responses ''data_notes'' ''(no notes)''])))"

text \<open>The three values of one past summary, \<open>summary.get(key, 'N/A')\<close> each.\<close>

definition summary_values :: "'f json \<Rightarrow> ('f exn + 'f json) list" where
  "summary_values summary =
    [dict_get summary ''overall_score'' (JStr ''N/A''),
     dict_get summary ''top_improvement'' (JStr ''N/A''),
     dict_get summary ''summary'' (JStr ''N/A'')]"

definition improvement_prompt_values :: "'f json list \<Rightarrow> 'f json \<Rightarrow> 'f exn + 'f json list" where
  "improvement_prompt_values past_summaries current_feedback =
    and_then (collect (concat (map summary_values
                (drop (length past_summaries - 5) past_summaries)))) (\<lambda>past_text.
    and_then (collect
      [getitem2 current_feedback ''overall'' ''score'',
       getitem2 current_feedback ''overall'' ''summary'',
       getitem2 current_feedback ''overall'' ''top_improvement'',
       getitem2 current_feedback ''deliverable_understanding'' ''score'',
       getitem2 current_feedback ''note_quality'' ''score'',
       getitem2 current_feedback ''note_efficiency'' ''score'',
       getitem2 current_feedback ''data_predictions'' ''score'',
       getitem2 current_feedback ''data_analysis'' ''score'',
       getitem2 current_feedback ''formatting'' ''score'']) (\<lambda>current.
      Inr (past_text @ current)))"

text \<open>
  One row of the checklist: \<open>row.get("parameter") or row.get("check")\<close> decides whether
  the row is written, with its parameter and its check.
\<close>

definition checklist_row :: "'f pyfloat \<Rightarrow> 'f json \<Rightarrow> 'f exn + 'f json list" where
  "checklist_row F row =
    and_then (dict_get row ''parameter'' JNull) (\<lambda>parameter.
    and_then (dict_get row ''check'' JNull) (\<lambda>chk.
      if truthy F parameter \<or> truthy F chk then
        and_then (dict_get row ''parameter'' (JStr [])) (\<lambda>p.
        and_then (dict_get row ''check'' (JStr [])) (\<lambda>c. Inr [p, c]))
      else Inr []))"

definition checklist_prompt_values ::
  "'f pyfloat \<Rightarrow> 'f json \<Rightarrow> 'f json list \<Rightarrow> 'f json \<Rightarrow> 'f exn + 'f json list" where
  "checklist_prompt_values F document checklist rubric_key_concepts =
    and_then (collect (map (checklist_row F) checklist)) (\<lambda>rows.
    and_then (getitem document ''title'') (\<lambda>title.
    and_then (getitem document ''content'') (\<lambda>body.
    and_then (join_strings rubric_key_concepts) (\<lambda>concepts.
      Inr ([title, body, concepts] @
           (if concat rows = [] then [JStr ''(No entries in checklist)''] else concat rows))))))"

text \<open>One document of a quick scenario: its title, then its bullets.\<close>

definition quick_document_values :: "'f json \<Rightarrow> 'f exn + 'f json list" where
  "quick_document_values doc =
    and_then (getitem doc ''title'') (\<lambda>title.
    and_then (and_then (getitem doc ''bullets'') iterate) (\<lambda>bullets.
      Inr (title # bullets)))"

definition quick_grade_prompt_values ::
  "'f json \<Rightarrow> 'f json \<Rightarrow> 'f json \<Rightarrow> 'f json \<Rightarrow> string \<Rightarrow> 'f exn + 'f json list" where
  "quick_grade_prompt_values question documents key_facts ideal_response user_response =
    and_then (iterate documents) (\<lambda>docs.
    and_then (collect (map quick_document_values docs)) (\<lambda>docs_text.
    and_then (join_strings key_facts) (\<lambda>facts.
      Inr ([question] @ concat docs_text @ [facts, ideal_response, JStr user_response]))))"

section \<open>A concrete environment\<close>

text \<open>
  An instance of the environment on which the definitions can be run: exact rational
  arithmetic in place of floats, the prompt builders of the source, the default
  configuration, an oracle that answers every request with one given text, and a decoder
  for the few texts used. The arithmetic is exact where Python's is binary: rounding to
  four places agrees with \<open>round()\<close> except where the double of a decimal tie lies off
  the tie. The text of a prompt is not reproduced: a builder returns the name of its
  template where the source returns the text, and raises what the source raises.
\<close>

definition exact_floats :: "rat pyfloat" where
  "exact_floats =
    \<lparr>int_truediv = (\<lambda>a b. of_int a / of_int b),
     float_mul = (\<lambda>x y. x * y),
     float_add = (\<lambda>x y. x + y),
     float_round = (\<lambda>x n. of_int \<lfloor>x * 10 ^ nat n + 1 / 2\<rfloor> / 10 ^ nat n),
     float_ge = (\<lambda>x y. y \<le> x),
     float_lit = (\<lambda>t. if t = ''15.0'' then 15 else if t = ''75.0'' then 75
                     else if t = ''3.0'' then 3 else if t = ''0.80'' then 4 / 5
                     else if t = ''4.0'' then 4 else 0),
     float_bool = (\<lambda>x. x \<noteq> 0)\<rparr>"

definition prompt_text :: "string \<Rightarrow> 'e + 'a \<Rightarrow> 'e + string" where
  "prompt_text name values = and_then values (\<lambda>vs. Inr name)"

definition prompt_builders :: "rat prompts" where
  "prompt_builders =
    \<lparr>SCENARIO_SYSTEM_PROMPT = ''scenario system'',
     get_scenario_user_prompt = (\<lambda>d df tr td ta. ''scenario user''),
     REVIEW_SYSTEM_PROMPT = ''review system'',
     get_review_user_prompt = (\<lambda>scenario responses.
        prompt_text ''review user'' (review_prompt_values scenario responses)),
     IMPROVEMENT_SYSTEM_PROMPT = ''improvement system'',
     get_improvement_user_prompt = (\<lambda>past feedback.
        prompt_text ''improvement user'' (improvement_prompt_values past feedback)),
     CHECKLIST_REVIEW_SYSTEM_PROMPT = ''checklist system'',
     get_checklist_review_prompt = (\<lambda>document checklist concepts.
        prompt_text ''checklist user''
          (checklist_prompt_values exact_floats document checklist concepts)),
     QUICK_SCENARIO_SYSTEM_PROMPT = ''quick scenario system'',
     get_quick_scenario_user_prompt = (\<lambda>mode d. ''quick scenario user''),
     QUICK_GRADE_SYSTEM_PROMPT = ''quick grade system'',
     get_quick_grade_user_prompt = (\<lambda>q ds kf ideal response.
        prompt_text ''quick grade user'' (quick_grade_prompt_values q ds kf ideal response))\<rparr>"

definition default_config :: "rat AppConfig" where
  "default_config =
    \<lparr>model_key = ''opus'', timer_request = 420, timer_document = 420,
     timer_predictions = 420, timer_data = 420, cost_limit = 4,
     domain = None, difficulty = ''intermediate''\<rparr>"

definition good_feedback :: "rat json" where
  "good_feedback = JObj [(''overall'', JObj [(''score'', JInt 4), (''summary'', JStr ''solid'')])]"

definition good_scenario :: "rat json" where
  "good_scenario =
    JObj [(''background'', JStr ''plant''), (''request'', JStr ''assess the pump''),
          (''question'', JStr ''why''), (''documents'', JArr []), (''key_facts'', JArr []),
          (''ideal_response'', JStr ''because'')]"

text \<open>A scenario and a review of the shape the prompts ask the oracle for.\<close>

definition full_scenario :: "rat json" where
  "full_scenario =
    JObj [(''background'', JStr ''pump station''),
          (''request'', JObj [(''from'', JStr ''plant manager''), (''subject'', JStr ''pump P-101''),
                              (''body'', JStr ''assess the pump'')]),
          (''documents'',
             JArr [JObj [(''title'', JStr ''datasheet''), (''content'', JStr ''rated flow 40 l/s'')],
                   JObj [(''title'', JStr ''log''), (''content'', JStr ''vibration rising'')],
                   JObj [(''title'', JStr ''standard''), (''content'', JStr ''limit 7 mm/s'')]]),
          (''data'', JObj [(''format'', JStr ''table''), (''description'', JStr ''vibration by week''),
                           (''content'', JStr ''1,4.2'')]),
          (''rubric'',
             JObj [(''deliverable_description'', JStr ''a short assessment''),
                   (''key_concepts_doc1'', JArr [JStr ''rated flow'']),
                   (''key_concepts_doc2'', JArr [JStr ''trend'']),
                   (''key_concepts_doc3'', JArr [JStr ''limit'']),
                   (''expected_data_patterns'', JArr [JStr ''rising'']),
                   (''data_analysis_points'', JArr [JStr ''rate of rise'']),
                   (''critical_connections'', JArr [JStr ''log against limit''])])]"

definition full_feedback :: "rat json" where
  "full_feedback =
    JObj [(''deliverable_understanding'', JObj [(''score'', JInt 4), (''feedback'', JStr ''clear'')]),
          (''note_quality'', JObj [(''score'', JInt 3), (''feedback'', JStr ''terse'')]),
          (''note_efficiency'', JObj [(''score'', JInt 4), (''feedback'', JStr ''good'')]),
          (''data_predictions'', JObj [(''score'', JInt 3), (''feedback'', JStr ''partial'')]),
          (''data_analysis'', JObj [(''score'', JInt 4), (''feedback'', JStr ''sound'')]),
          (''formatting'', JObj [(''score'', JInt 5), (''feedback'', JStr ''tidy'')]),
          (''overall'', JObj [(''score'', JInt 4), (''summary'', JStr ''solid''),
                              (''top_improvement'', JStr ''quantify the trend'')])]"

text \<open>
  A past summary as \<open>get_past_summaries\<close> builds it, a document, a checklist row, and the
  documents of a quick scenario.
\<close>

definition a_summary :: "rat json" where
  "a_summary =
    JObj [(''session_id'', JStr ''2026-02-06_001''), (''overall_score'', JInt 4),
          (''summary'', JStr ''solid''), (''top_improvement'', JStr [])]"

definition a_document :: "rat json" where
  "a_document = JObj [(''title'', JStr ''datasheet''), (''content'', JStr ''rated flow 40 l/s'')]"

definition a_checklist_row :: "rat json" where
  "a_checklist_row =
    JObj [(''id'', JStr ''1''), (''parameter'', JStr ''rated flow''), (''check'', JStr ''40 l/s'')]"

definition quick_documents :: "rat json" where
  "quick_documents =
    JArr [JObj [(''title'', JStr ''log''),
                (''bullets'', JArr [JStr ''vibration rising'', JStr ''bearing warm''])]]"

definition stub_loads :: "string \<Rightarrow> string + rat json" where
  "stub_loads t =
    (if t = ''{}'' then Inr (JObj [])
     else if t = ''[]'' then Inr (JArr [])
     else if t = ''null'' then Inr JNull
     else if t = ''FEEDBACK'' then Inr good_feedback
     else if t = ''REVIEW'' then Inr full_feedback
     else if t = ''SCENARIO'' then Inr good_scenario
     else if t = ''RECORD'' then Inr (JObj [(''timestamp'', JStr ''t''), (''feedback'', good_feedback)])
     else if t = ''BADRECORD'' then Inr (JObj [(''timestamp'', JStr ''t''), (''feedback'', JArr [])])
     else Inl ''Expecting value'')"

definition stub_env :: "string \<Rightarrow> rat env" where
  "stub_env reply =
    \<lparr>floats = exact_floats,
     prompt_texts = prompt_builders,
     app_config = default_config,
     ANTHROPIC_API_KEY = ''sk-ant-test'',
     messages_create = (\<lambda>before rq.
        Inr \<lparr>content = [reply], usage_input_tokens = 1000, usage_output_tokens = 500\<rparr>),
     json_loads = stub_loads,
     json_dumps = (\<lambda>v. ''RECORD''),
     disk_writable = True,
     today = ''2026-02-07'',
     now_isoformat = ''2026-02-07T09:00:00''\<rparr>"

definition empty_state :: "rat state" where
  "empty_state =
    \<lparr>active_sessions = Map.empty, active_quick_sessions = Map.empty,
     sessions_dir = [], quick_sessions_dir = [], placed = []\<rparr>"

definition spent_tracker :: TokenTracker where
  "spent_tracker =
    \<lparr>total_input_tokens = 1000000, total_output_tokens = 0, call_count = 1,
     calls = [\<lparr>label = ''review'', input_tokens = 1000000, output_tokens = 0\<rparr>]\<rparr>"

definition opus :: "rat ModelConfig" where
  "opus = \<lparr>api_name = ''claude-opus-4-6'', display_name = ''Opus 4.6'',
            input_cost_per_m = 15, output_cost_per_m = 75\<rparr>"

definition a_session :: "rat session" where
  "a_session =
    \<lparr>s_session_id = ''2026-02-07_001'', s_timestamp = ''2026-02-07T09:00:00'',
     s_model_used = ''claude-opus-4-6'', s_domain = ''random'', s_difficulty = ''intermediate'',
     s_scenario = full_scenario, user_responses = [(''doc1_notes'', ''valve rating'')],
     time_used = [(''doc1_notes'', 60)], s_tracker = new_tracker\<rparr>"

definition a_quick_session :: "rat quick_session" where
  "a_quick_session =
    \<lparr>q_session_id = ''quick_2026-02-07_001'', q_timestamp = ''2026-02-07T09:00:00'',
     q_duration_mode = ''5min'', q_scenario = good_scenario, q_tracker = new_tracker\<rparr>"

definition one_session_state :: "rat state" where
  "one_session_state =
    \<lparr>active_sessions = [''2026-02-07_001'' \<mapsto> a_session],
     active_quick_sessions = [''quick_2026-02-07_001'' \<mapsto> a_quick_session],
     sessions_dir = [], quick_sessions_dir = [], placed = []\<rparr>"

section \<open>Cost tracker\<close>

lemma track_all_totals:
  "total_input_tokens (track_all t cs) = total_input_tokens t + sum_list (map fst cs) \<and>
   total_output_tokens (track_all t cs) = total_output_tokens t + sum_list (map (fst \<circ> snd) cs)"
  by (induction t cs rule: track_all.induct) (simp_all add: track_def)

text \<open>
  Claim C6. After any run of \<open>track\<close> calls on a fresh tracker, \<open>estimate_cost\<close> is
  \<open>round(sum of inputs / 1e6 * input price + sum of outputs / 1e6 * output price, 4)\<close>, and
  it equals \<open>estimate_cost\<close> of any tracker that holds the summed totals, whatever its call
  count and call list. \<open>estimate_cost\<close> returns a float only: its body assigns nothing, so
  there is no tracker after it other than the one before it.
\<close>

theorem estimate_cost_additive:
  "estimate_cost F (track_all new_tracker cs) m =
     float_round F
       (float_add F
          (float_mul F (int_truediv F (sum_list (map fst cs)) 1000000) (input_cost_per_m m))
          (float_mul F (int_truediv F (sum_list (map (fst \<circ> snd) cs)) 1000000) (output_cost_per_m m)))
       4
   \<and> estimate_cost F (track_all new_tracker cs) m =
     estimate_cost F
       \<lparr>total_input_tokens = sum_list (map fst cs),
        total_output_tokens = sum_list (map (fst \<circ> snd) cs),
        call_count = n, calls = recs\<rparr> m"
proof -
  have tot: "total_input_tokens (track_all new_tracker cs) = sum_list (map fst cs)"
    "total_output_tokens (track_all new_tracker cs) = sum_list (map (fst \<circ> snd) cs)"
    using track_all_totals [of new_tracker cs] by (simp_all add: new_tracker_def)
  show ?thesis
    by (simp add: estimate_cost_def tot)
qed

text \<open>
  With exact arithmetic: 16000 input and 500 output tokens at the Opus prices cost
  0.2775 dollars.
\<close>

theorem estimate_cost_additive_example:
  "estimate_cost exact_floats
     (track_all new_tracker [(15000, 0, ''scenario_generation''), (1000, 500, ''review'')]) opus
   = 111 / 400"
proof -
  have "(\<lfloor>(16000 / 1000000 * 15 + 500 / 1000000 * 75) * 10 ^ 4 + 1 / 2 :: rat\<rfloor>) = 2775"
    by (simp add: floor_eq_iff)
  then show ?thesis
    using estimate_cost_additive [THEN conjunct1, of exact_floats
        "[(15000, 0, ''scenario_generation''), (1000, 500, ''review'')]" opus]
    by (simp add: exact_floats_def opus_def)
qed

section \<open>Content scaling\<close>

text \<open>
  Claim C9. The length guidance is the four-tier lookup: the tier is fixed by the duration
  alone (at most 90, at most 180, at most 300, longer), each tier has one fixed tuple of
  request length, document length, data rows, key concepts and data points, and the block
  of the scenario prompt takes the request length from the request timer, the document
  length and the key concepts from the document timer, and the data rows and data points
  from the data timer. Nothing else enters: neither function has another argument.
\<close>

theorem length_guidance_four_tiers:
  "guidance_tuple (get_length_guidance seconds) = tier_table (tier_of seconds)
   \<and> (tier_of seconds = Tier90) = (seconds \<le> 90)
   \<and> (tier_of seconds = Tier180) = (90 < seconds \<and> seconds \<le> 180)
   \<and> (tier_of seconds = Tier300) = (180 < seconds \<and> seconds \<le> 300)
   \<and> (tier_of seconds = TierLonger) = (300 < seconds)
   \<and> length_instructions t_request t_document t_data =
       (case (tier_table (tier_of t_request), tier_table (tier_of t_document),
              tier_table (tier_of t_data)) of
          ((rq, _, _, _, _), (_, doc, _, concepts, _), (_, _, rows, _, points)) \<Rightarrow>
            [rq, doc, rows, concepts, points])"
proof -
  have a: "\<And>x. guidance_tuple (get_length_guidance x) = tier_table (tier_of x)"
    by (simp add: guidance_tuple_def get_length_guidance_def tier_of_def)
  have b: "length_instructions t_request t_document t_data =
       [fst (guidance_tuple (get_length_guidance t_request)),
        fst (snd (guidance_tuple (get_length_guidance t_document))),
        fst (snd (snd (guidance_tuple (get_length_guidance t_data)))),
        fst (snd (snd (snd (guidance_tuple (get_length_guidance t_document))))),
        snd (snd (snd (snd (guidance_tuple (get_length_guidance t_data)))))]"
    by (simp add: length_instructions_def guidance_tuple_def Let_def)
  show ?thesis
    unfolding b a by (auto simp: tier_of_def split: prod.splits)
qed

text \<open>The same environment an hour and a half later.\<close>

definition later_env :: "rat env" where
  "later_env = (stub_env ''SCENARIO'')\<lparr>now_isoformat := ''2026-02-07T10:30:00''\<rparr>"

text \<open>
  Three more: an environment without the credential, an oracle that fails on the
  comparison request only, and a store that holds one reviewed session of the day before.
\<close>

definition keyless_env :: "rat env" where
  "keyless_env = (stub_env ''FEEDBACK'')\<lparr>ANTHROPIC_API_KEY := []\<rparr>"

definition flaky_env :: "rat env" where
  "flaky_env = (stub_env ''REVIEW'')\<lparr>messages_create := (\<lambda>before rq.
      if rq_system rq = ''improvement system'' then Inl (APIError ''overloaded'')
      else Inr \<lparr>content = [''REVIEW''], usage_input_tokens = 1000, usage_output_tokens = 500\<rparr>)\<rparr>"

text \<open>An oracle whose answer to the comparison request is not JSON.\<close>

definition garbled_env :: "rat env" where
  "garbled_env = (stub_env ''REVIEW'')\<lparr>messages_create := (\<lambda>before rq.
      Inr \<lparr>content = [if rq_system rq = ''improvement system'' then ''not json'' else ''REVIEW''],
           usage_input_tokens = 1000, usage_output_tokens = 500\<rparr>)\<rparr>"

definition history_state :: "rat state" where
  "history_state = one_session_state\<lparr>sessions_dir := [(''2026-02-06_001.json'', ''RECORD'')]\<rparr>"

section \<open>The concrete environment evaluated\<close>

lemma floor_rat_numeral [simp]: "\<lfloor>numeral a / numeral b :: rat\<rfloor> = numeral a div numeral b"
  by (metis floor_divide_of_int_eq of_int_numeral)

lemma floor_rat_one [simp]: "\<lfloor>1 / numeral b :: rat\<rfloor> = 1 div numeral b"
  by (metis floor_divide_of_int_eq of_int_numeral of_int_1)

lemma stub_model: "model exact_floats default_config = Inr opus"
  by (simp add: model_def MODELS_def default_config_def exact_floats_def opus_def)

lemma spent_cost: "estimate_cost exact_floats spent_tracker opus = 15"
  by (simp add: estimate_cost_def exact_floats_def spent_tracker_def opus_def)

section \<open>Model gateway: the budget gate\<close>

lemma call_claude_over_budget:
  assumes "ANTHROPIC_API_KEY E \<noteq> []"
      and "model (floats E) (app_config E) = Inr m"
      and "float_ge (floats E) (estimate_cost (floats E) tracker m) (cost_limit (app_config E))"
  shows "call_claude E sp up tracker l n p =
    (Inl (ValueError_cost_limit (estimate_cost (floats E) tracker m) (cost_limit (app_config E))),
     tracker, p)"
  using assms by (simp add: call_claude_def get_api_key_def Let_def)

lemma call_claude_over_budget_frame:
  assumes "model (floats E) (app_config E) = Inr m"
      and "float_ge (floats E) (estimate_cost (floats E) tracker m) (cost_limit (app_config E))"
  shows "snd (call_claude E sp up tracker l n p) = (tracker, p)"
  using assms by (simp add: call_claude_def get_api_key_def Let_def)

text \<open>
  Claim C2. With the credential configured and the configured model known, a tracker whose
  estimated cost for the active model has reached the cost limit makes each of the six
  operations fail with the cost-limit ValueError as soon as its prompt is built; no request
  is placed with the oracle and the tracker is as before. The last four conjuncts say that
  the oracle stays untouched and the tracker unchanged also when the prompt builder of an
  operation raises.
\<close>

theorem budget_gate:
  assumes key: "ANTHROPIC_API_KEY E \<noteq> []"
      and mdl: "model (floats E) (app_config E) = Inr m"
      and over: "float_ge (floats E) (estimate_cost (floats E) tracker m) (cost_limit (app_config E))"
  shows
    "generate_scenario E tracker p =
       (Inl (ValueError_cost_limit (estimate_cost (floats E) tracker m) (cost_limit (app_config E))), tracker, p)
     \<and> (\<forall>up. get_review_user_prompt (prompt_texts E) scenario responses = Inr up \<longrightarrow>
          generate_review E scenario responses tracker p =
            (Inl (ValueError_cost_limit (estimate_cost (floats E) tracker m) (cost_limit (app_config E))), tracker, p))
     \<and> (\<forall>up. get_improvement_user_prompt (prompt_texts E) past feedback = Inr up \<longrightarrow>
          generate_improvement_comparison E past feedback tracker p =
            (Inl (ValueError_cost_limit (estimate_cost (floats E) tracker m) (cost_limit (app_config E))), tracker, p))
     \<and> (\<forall>up. get_checklist_review_prompt (prompt_texts E) document checklist concepts = Inr up \<longrightarrow>
          review_checklist E document checklist concepts tracker p =
            (Inl (ValueError_cost_limit (estimate_cost (floats E) tracker m) (cost_limit (app_config E))), tracker, p))
     \<and> generate_quick_scenario E mode dmn tracker p =
          (Inl (ValueError_cost_limit (estimate_cost (floats E) tracker m) (cost_limit (app_config E))), tracker, p)
     \<and> (\<forall>up. get_quick_grade_user_prompt (prompt_texts E) question documents key_facts ideal response = Inr up \<longrightarrow>
          grade_quick_response E question documents key_facts ideal response tracker p =
            (Inl (ValueError_cost_limit (estimate_cost (floats E) tracker m) (cost_limit (app_config E))), tracker, p))
     \<and> snd (generate_review E scenario responses tracker p) = (tracker, p)
     \<and> snd (generate_improvement_comparison E past feedback tracker p) = (tracker, p)
     \<and> snd (review_checklist E document checklist concepts tracker p) = (tracker, p)
     \<and> snd (grade_quick_response E question documents key_facts ideal response tracker p) = (tracker, p)"
proof -
  note gate = call_claude_over_budget [OF key mdl over]
  note frame = call_claude_over_budget_frame [OF mdl over]
  have 1: "generate_scenario E tracker p =
       (Inl (ValueError_cost_limit (estimate_cost (floats E) tracker m) (cost_limit (app_config E))), tracker, p)"
    by (simp add: generate_scenario_def gate)
  have 5: "generate_quick_scenario E mode dmn tracker p =
       (Inl (ValueError_cost_limit (estimate_cost (floats E) tracker m) (cost_limit (app_config E))), tracker, p)"
    by (simp add: generate_quick_scenario_def gate)
  have 2: "\<forall>up. get_review_user_prompt (prompt_texts E) scenario responses = Inr up \<longrightarrow>
          generate_review E scenario responses tracker p =
            (Inl (ValueError_cost_limit (estimate_cost (floats E) tracker m) (cost_limit (app_config E))), tracker, p)"
    by (simp add: generate_review_def gate)
  have 3: "\<forall>up. get_improvement_user_prompt (prompt_texts E) past feedback = Inr up \<longrightarrow>
          generate_improvement_comparison E past feedback tracker p =
            (Inl (ValueError_cost_limit (estimate_cost (floats E) tracker m) (cost_limit (app_config E))), tracker, p)"
    by (simp add: generate_improvement_comparison_def gate)
  have 4: "\<forall>up. get_checklist_review_prompt (prompt_texts E) document checklist concepts = Inr up \<longrightarrow>
          review_checklist E document checklist concepts tracker p =
            (Inl (ValueError_cost_limit (estimate_cost (floats E) tracker m) (cost_limit (app_config E))), tracker, p)"
    by (simp add: review_checklist_def gate)
  have 6: "\<forall>up. get_quick_grade_user_prompt (prompt_texts E) question documents key_facts ideal response = Inr up \<longrightarrow>
          grade_quick_response E question documents key_facts ideal response tracker p =
            (Inl (ValueError_cost_limit (estimate_cost (floats E) tracker m) (cost_limit (app_config E))), tracker, p)"
    by (simp add: grade_quick_response_def gate)
  have 7: "snd (generate_review E scenario responses tracker p) = (tracker, p)"
    by (simp add: generate_review_def frame split: sum.splits)
  have 8: "snd (generate_improvement_comparison E past feedback tracker p) = (tracker, p)"
    by (simp add: generate_improvement_comparison_def frame split: sum.splits)
  have 9: "snd (review_checklist E document checklist concepts tracker p) = (tracker, p)"
    by (simp add: review_checklist_def frame split: sum.splits)
  have 10: "snd (grade_quick_response E question documents key_facts ideal response tracker p) = (tracker, p)"
    by (simp add: grade_quick_response_def frame split: sum.splits)
  from 1 2 3 4 5 6 7 8 9 10 show ?thesis by blast
qed

theorem budget_gate_witness:
  "generate_scenario (stub_env ''{}'') spent_tracker [] = (Inl (ValueError_cost_limit 15 4), spent_tracker, [])
   \<and> get_review_user_prompt (prompt_texts (stub_env ''{}'')) full_scenario [] = Inr ''review user''
   \<and> generate_review (stub_env ''{}'') full_scenario [] spent_tracker [] = (Inl (ValueError_cost_limit 15 4), spent_tracker, [])
   \<and> get_improvement_user_prompt (prompt_texts (stub_env ''{}'')) [a_summary] full_feedback = Inr ''improvement user''
   \<and> generate_improvement_comparison (stub_env ''{}'') [a_summary] full_feedback spent_tracker [] = (Inl (ValueError_cost_limit 15 4), spent_tracker, [])
   \<and> get_checklist_review_prompt (prompt_texts (stub_env ''{}'')) a_document [a_checklist_row]
        (JArr [JStr ''rated flow'']) = Inr ''checklist user''
   \<and> review_checklist (stub_env ''{}'') a_document [a_checklist_row] (JArr [JStr ''rated flow'']) spent_tracker [] = (Inl (ValueError_cost_limit 15 4), spent_tracker, [])
   \<and> generate_quick_scenario (stub_env ''{}'') ''5min'' None spent_tracker [] = (Inl (ValueError_cost_limit 15 4), spent_tracker, [])
   \<and> get_quick_grade_user_prompt (prompt_texts (stub_env ''{}'')) (JStr ''why'') quick_documents
        (JArr [JStr ''trend'']) (JStr ''because'') ''answer'' = Inr ''quick grade user''
   \<and> grade_quick_response (stub_env ''{}'') (JStr ''why'') quick_documents (JArr [JStr ''trend'']) (JStr ''because'') ''answer'' spent_tracker [] = (Inl (ValueError_cost_limit 15 4), spent_tracker, [])"
proof -
  have key: "ANTHROPIC_API_KEY (stub_env ''{}'') \<noteq> []"
    by (simp add: stub_env_def)
  have mdl: "model (floats (stub_env ''{}'')) (app_config (stub_env ''{}'')) = Inr opus"
    by (simp add: stub_env_def stub_model)
  have over: "float_ge (floats (stub_env ''{}'')) (estimate_cost (floats (stub_env ''{}'')) spent_tracker opus)
                (cost_limit (app_config (stub_env ''{}'')))"
    by (simp add: stub_env_def spent_cost) (simp add: exact_floats_def default_config_def)
  have c: "estimate_cost (floats (stub_env ''{}'')) spent_tracker opus = 15"
    "cost_limit (app_config (stub_env ''{}'')) = 4"
    by (simp_all add: stub_env_def spent_cost default_config_def)
  have b2: "get_review_user_prompt (prompt_texts (stub_env ''{}'')) full_scenario [] = Inr ''review user''"
    by code_simp
  have b3: "get_improvement_user_prompt (prompt_texts (stub_env ''{}'')) [a_summary] full_feedback
      = Inr ''improvement user''"
    by code_simp
  have b4: "get_checklist_review_prompt (prompt_texts (stub_env ''{}'')) a_document [a_checklist_row]
        (JArr [JStr ''rated flow'']) = Inr ''checklist user''"
    by code_simp
  have b6: "get_quick_grade_user_prompt (prompt_texts (stub_env ''{}'')) (JStr ''why'') quick_documents
        (JArr [JStr ''trend'']) (JStr ''because'') ''answer'' = Inr ''quick grade user''"
    by code_simp
  show ?thesis
    using budget_gate [OF key mdl over, of "[]" full_scenario "[]" "[a_summary]" full_feedback
        a_document "[a_checklist_row]" "JArr [JStr ''rated flow'']" "''5min''" None
        "JStr ''why''" quick_documents "JArr [JStr ''trend'']" "JStr ''because''" "''answer''"]
      b2 b3 b4 b6
    unfolding c by simp
qed

section \<open>Model gateway: the parsing stage\<close>

text \<open>
  The fence removal raises exactly on a text that, once stripped, starts with a fence and
  holds no newline: \<open>split("\n", 1)\<close> then has one element only, and the code reads the
  second.
\<close>

lemma rsplit1_nonempty: "rsplit1 s sep \<noteq> []"
  by (simp add: rsplit1_def split: option.splits)

lemma strip_fence_raises_iff:
  "(\<exists>e. (strip_fence raw :: 'f exn + string) = Inl e) =
     (startswith (strip raw) ''```'' \<and> CHR 0x0A \<notin> set (strip raw))"
  by (auto simp: strip_fence_def Let_def split1_def subscript_def rsplit1_def split: option.splits)

text \<open>
  Claim C3. The oracle answers with a fenced object on one line. The gateway has placed
  the request and tracked its usage, and then raises IndexError while removing the fence,
  before \<open>json.loads\<close> and its handler are reached: no sentinel record is returned.
\<close>

theorem fence_without_newline_raises:
  "(strip_fence ''```{}```'' :: rat exn + string) = Inl IndexError
   \<and> call_claude (stub_env ''```{}```'') ''review system'' ''review user'' new_tracker ''review'' 4096 [] =
     (Inl IndexError, track new_tracker 1000 500 ''review'',
      [\<lparr>rq_model = ''claude-opus-4-6'', rq_max_tokens = 4096, rq_system = ''review system'',
        rq_user = ''review user''\<rparr>])"
proof -
  have s: "strip ''```{}```'' = ''```{}```''"
    by (simp add: strip_def isspace_def)
  have f: "(strip_fence ''```{}```'' :: rat exn + string) = Inl IndexError"
    by (simp add: strip_fence_def s startswith_def split1_def subscript_def)
  have c: "estimate_cost exact_floats new_tracker opus = 0"
    by (simp add: estimate_cost_def exact_floats_def new_tracker_def opus_def)
  show ?thesis
    by (simp add: f call_claude_def get_api_key_def stub_env_def stub_model c Let_def
        subscript_def) (simp add: exact_floats_def default_config_def opus_def)
qed

section \<open>Session store: allocating an id\<close>

text \<open>
  Claim C4. With the id \<open>2026-02-07_003\<close> persisted, the next id is \<open>2026-02-07_004\<close>.
  But \<open>generate_session_id\<close> reads the persisted files only, and \<open>start_session\<close>
  persists nothing before the review: the store is still empty after a start. Two sessions
  started one after the other on an empty store therefore both get the id
  \<open>2026-02-07_001\<close>, and the second replaces the first in the in-memory table: the
  entry under that id carries the later timestamp.
\<close>

theorem two_starts_one_id:
  "generate_session_id (stub_env ''SCENARIO'') [(''2026-02-07_003.json'', ''RECORD'')]
     = Inr ''2026-02-07_004''
   \<and> sessions_dir (snd (start_session (stub_env ''SCENARIO'') empty_state)) = []
   \<and> and_then (fst (start_session (stub_env ''SCENARIO'') empty_state))
       (\<lambda>r. dict_get r ''session_id'' JNull)
     = Inr (JStr ''2026-02-07_001'')
   \<and> and_then (fst (start_session later_env (snd (start_session (stub_env ''SCENARIO'') empty_state))))
         (\<lambda>r. dict_get r ''session_id'' JNull)
     = Inr (JStr ''2026-02-07_001'')
   \<and> map_option s_timestamp
         (active_sessions (snd (start_session (stub_env ''SCENARIO'') empty_state)) ''2026-02-07_001'')
     = Some ''2026-02-07T09:00:00''
   \<and> map_option s_timestamp
         (active_sessions
            (snd (start_session later_env (snd (start_session (stub_env ''SCENARIO'') empty_state))))
            ''2026-02-07_001'')
     = Some ''2026-02-07T10:30:00''"
  by code_simp

section \<open>Session store: listing\<close>

text \<open>
  Claim C5. A file whose text is valid JSON but not an object (\<open>[]\<close>), or an object
  whose feedback is not an object, makes \<open>data.get\<close> raise AttributeError, which the handler
  of \<open>list_sessions\<close> does not catch: the listing is aborted, with two good records beside
  the bad file. A file that does not decode at all is skipped, and the two good records are
  listed, the later id first.
\<close>

theorem listing_aborts_on_non_dict:
  "list_sessions (stub_env [])
     [(''2026-02-07_001.json'', ''RECORD''), (''2026-02-07_002.json'', ''[]''),
      (''2026-02-07_003.json'', ''RECORD'')] = Inl AttributeError
   \<and> list_sessions (stub_env [])
     [(''2026-02-07_001.json'', ''RECORD''), (''2026-02-07_002.json'', ''BADRECORD''),
      (''2026-02-07_003.json'', ''RECORD'')] = Inl AttributeError
   \<and> map_sum id (map (\<lambda>e. dict_get e ''session_id'' JNull))
       (list_sessions (stub_env [])
         [(''2026-02-07_001.json'', ''RECORD''), (''2026-02-07_002.json'', ''not json''),
          (''2026-02-07_003.json'', ''RECORD'')])
     = Inr [Inr (JStr ''2026-02-07_003''), Inr (JStr ''2026-02-07_001'')]"
  by code_simp

section \<open>Orchestrator: submitting notes\<close>

lemma update_twice: "AList.update k v (AList.update k v xs) = AList.update k v xs"
  by (induction xs) auto

lemma map_of_update_same: "map_of (AList.update k v xs) k = Some v"
  by (simp add: update_conv)

lemma map_of_update_other: "k' \<noteq> k \<Longrightarrow> map_of (AList.update k v xs) k' = map_of xs k'"
  by (simp add: update_conv)

text \<open>
  Claim C7. For an active session: a step outside the seven recognized names is refused
  with status 400 and the whole state, the two maps of the session included, is as before;
  a recognized step stores the content and the time under that step, leaves every other
  step as it was, and submitting the same step and content again changes nothing. The
  recognized names are seven, without repetition.
\<close>

theorem submit_validation:
  assumes act: "active_sessions s session_id = Some session"
  shows
    "(step \<notin> set valid_steps \<longrightarrow>
        submit_notes session_id step c t s = (Inl (HTTPException 400 ''Invalid step'' None), s))
     \<and> (step \<in> set valid_steps \<longrightarrow>
        (\<exists>session'.
           submit_notes session_id step c t s =
             (Inr (JObj [(''status'', JStr ''saved''), (''step'', JStr step)]),
              s\<lparr>active_sessions := (active_sessions s)(session_id \<mapsto> session')\<rparr>)
           \<and> map_of (user_responses session') step = Some c
           \<and> map_of (time_used session') step = Some t
           \<and> (\<forall>k. k \<noteq> step \<longrightarrow>
                 map_of (user_responses session') k = map_of (user_responses session) k \<and>
                 map_of (time_used session') k = map_of (time_used session) k)
           \<and> submit_notes session_id step c t (snd (submit_notes session_id step c t s)) =
               submit_notes session_id step c t s))
     \<and> length valid_steps = 7 \<and> distinct valid_steps"
proof (intro conjI impI)
  assume "step \<notin> set valid_steps"
  then show "submit_notes session_id step c t s = (Inl (HTTPException 400 ''Invalid step'' None), s)"
    using act by (simp add: submit_notes_def)
next
  assume ok: "step \<in> set valid_steps"
  define session' where "session' =
    session\<lparr>user_responses := AList.update step c (user_responses session),
            time_used := AList.update step t (time_used session)\<rparr>"
  have run: "submit_notes session_id step c t s =
      (Inr (JObj [(''status'', JStr ''saved''), (''step'', JStr step)]),
       s\<lparr>active_sessions := (active_sessions s)(session_id \<mapsto> session')\<rparr>)"
    using act ok by (simp add: submit_notes_def session'_def)
  have again: "submit_notes session_id step c t
        (s\<lparr>active_sessions := (active_sessions s)(session_id \<mapsto> session')\<rparr>) =
      (Inr (JObj [(''status'', JStr ''saved''), (''step'', JStr step)]),
       s\<lparr>active_sessions := (active_sessions s)(session_id \<mapsto> session')\<rparr>)"
    using ok by (simp add: submit_notes_def session'_def update_twice)
  have "map_of (user_responses session') step = Some c"
       "map_of (time_used session') step = Some t"
    by (simp_all add: session'_def map_of_update_same)
  moreover have "\<forall>k. k \<noteq> step \<longrightarrow>
       map_of (user_responses session') k = map_of (user_responses session) k \<and>
       map_of (time_used session') k = map_of (time_used session) k"
    by (simp add: session'_def map_of_update_other)
  moreover have "submit_notes session_id step c t (snd (submit_notes session_id step c t s)) =
       submit_notes session_id step c t s"
    by (simp add: run again)
  ultimately show "\<exists>session'.
           submit_notes session_id step c t s =
             (Inr (JObj [(''status'', JStr ''saved''), (''step'', JStr step)]),
              s\<lparr>active_sessions := (active_sessions s)(session_id \<mapsto> session')\<rparr>)
           \<and> map_of (user_responses session') step = Some c
           \<and> map_of (time_used session') step = Some t
           \<and> (\<forall>k. k \<noteq> step \<longrightarrow>
                 map_of (user_responses session') k = map_of (user_responses session) k \<and>
                 map_of (time_used session') k = map_of (time_used session) k)
           \<and> submit_notes session_id step c t (snd (submit_notes session_id step c t s)) =
               submit_notes session_id step c t s"
    using run by blast
next
  show "length valid_steps = 7" by (simp add: valid_steps_def)
  show "distinct valid_steps" by (simp add: valid_steps_def)
qed

theorem submit_validation_witness:
  "active_sessions one_session_state ''2026-02-07_001'' = Some a_session
   \<and> ''not_a_step'' \<notin> set valid_steps
   \<and> submit_notes ''2026-02-07_001'' ''not_a_step'' ''x'' 10 one_session_state =
       (Inl (HTTPException 400 ''Invalid step'' None), one_session_state)
   \<and> ''doc1_notes'' \<in> set valid_steps
   \<and> submit_notes ''2026-02-07_001'' ''doc1_notes'' ''pump curve'' 75
        (snd (submit_notes ''2026-02-07_001'' ''doc1_notes'' ''pump curve'' 75 one_session_state)) =
      submit_notes ''2026-02-07_001'' ''doc1_notes'' ''pump curve'' 75 one_session_state
   \<and> map_option user_responses (active_sessions
        (snd (submit_notes ''2026-02-07_001'' ''doc1_notes'' ''pump curve'' 75 one_session_state))
        ''2026-02-07_001'') = Some [(''doc1_notes'', ''pump curve'')]"
proof -
  have act: "active_sessions one_session_state ''2026-02-07_001'' = Some a_session"
    by (simp add: one_session_state_def)
  have bad: "''not_a_step'' \<notin> set valid_steps" and good: "''doc1_notes'' \<in> set valid_steps"
    by (simp_all add: valid_steps_def)
  have ev: "map_option user_responses (active_sessions
        (snd (submit_notes ''2026-02-07_001'' ''doc1_notes'' ''pump curve'' 75 one_session_state))
        ''2026-02-07_001'') = Some [(''doc1_notes'', ''pump curve'')]"
    using good by (simp add: submit_notes_def act a_session_def)
  show ?thesis
    using submit_validation [OF act, of "''not_a_step''" "''x''" 10]
      submit_validation [OF act, of "''doc1_notes''" "''pump curve''" 75] act bad good ev
    by blast
qed

section \<open>Orchestrator: the steps of a review\<close>

text \<open>
  The sentinel of the gateway carries the key \<open>error\<close>; a gateway call that returns has
  found the credential and the model; and \<open>review_session\<close> read as its steps: what it
  returns when the review call raises, what any failure leaves behind, and what a success
  is made of.
\<close>

lemma sentinel_tagged:
  "json_loads E cleaned = Inl msg \<Longrightarrow> py_in ''error'' (parse_json E raw cleaned) = Inr True"
  by (simp add: parse_json_def py_in_def)

lemma call_claude_Inr:
  "call_claude E sp up t l n p = (Inr v, t', p') \<Longrightarrow>
     ANTHROPIC_API_KEY E \<noteq> [] \<and> (\<exists>m. model (floats E) (app_config E) = Inr m)"
  by (auto simp: call_claude_def get_api_key_def Let_def split: sum.splits if_splits)

lemma generate_review_Inr:
  "generate_review E sc ur t p = (Inr v, t', p') \<Longrightarrow>
     ANTHROPIC_API_KEY E \<noteq> [] \<and> (\<exists>m. model (floats E) (app_config E) = Inr m)"
  by (auto simp: generate_review_def split: sum.splits dest: call_claude_Inr)

lemma save_session_Inr:
  "save_session E sid data files = Inr files' \<Longrightarrow>
     disk_writable E \<and> files' = AList.update (sid @ ''.json'') (json_dumps E data) files"
  by (auto simp: save_session_def split: if_splits)

lemma improvement_step_skipped:
  "past = [] \<or> py_in ''error'' fb = Inr True \<Longrightarrow> improvement_step E past fb t p = Inr (None, t, p)"
  by (auto simp: improvement_step_def)

lemma improvement_step_invoked:
  "past \<noteq> [] \<Longrightarrow> py_in ''error'' fb = Inr False \<Longrightarrow>
   generate_improvement_comparison E past fb t p = (r2, t2, p2) \<Longrightarrow>
   improvement_step E past fb t p = Inr (case r2 of Inl e \<Rightarrow> None | Inr v \<Rightarrow> Some v, t2, p2)"
  by (auto simp: improvement_step_def split: sum.splits)

lemma review_session_raises:
  "active_sessions s sid = Some session \<Longrightarrow>
   generate_review E (s_scenario session) (user_responses session) (s_tracker session) (placed s)
     = (Inl e, t, p) \<Longrightarrow>
   review_session E sid s = (Inl (HTTPException 500 ''Review failed: '' (Some e)), tracked s sid session t p)"
  by (simp add: review_session_def)

lemma review_session_failed:
  "active_sessions s sid = Some session \<Longrightarrow> review_session E sid s = (Inl e, s') \<Longrightarrow>
   \<exists>t p. s' = tracked s sid session t p"
  by (auto simp: review_session_def split: prod.splits sum.splits)

lemma review_session_done:
  "active_sessions s sid = Some session \<Longrightarrow> review_session E sid s = (Inr r, s') \<Longrightarrow>
   \<exists>fb t1 p1 past imp t2 p2 m.
     generate_review E (s_scenario session) (user_responses session) (s_tracker session) (placed s)
       = (Inr fb, t1, p1)
     \<and> get_past_summaries E 5 (sessions_dir s) = Inr past
     \<and> improvement_step E past fb t1 p1 = Inr (imp, t2, p2)
     \<and> model (floats E) (app_config E) = Inr m
     \<and> disk_writable E
     \<and> r = JObj [(''feedback'', fb), (''improvement'', json_or_null imp),
                  (''token_usage'', to_dict (floats E) t2 m)]
     \<and> s' = s\<lparr>active_sessions := (active_sessions s)(sid := None),
               sessions_dir := AList.update (sid @ ''.json'')
                  (json_dumps E (session_data E m session fb imp t2)) (sessions_dir s),
               placed := p2\<rparr>"
  by (auto simp: review_session_def split: prod.splits sum.splits dest!: save_session_Inr)

lemma review_session_completes:
  "active_sessions s sid = Some session \<Longrightarrow>
   generate_review E (s_scenario session) (user_responses session) (s_tracker session) (placed s)
       = (Inr fb, t1, p1) \<Longrightarrow>
   get_past_summaries E 5 (sessions_dir s) = Inr past \<Longrightarrow>
   improvement_step E past fb t1 p1 = Inr (imp, t2, p2) \<Longrightarrow>
   model (floats E) (app_config E) = Inr m \<Longrightarrow>
   disk_writable E \<Longrightarrow>
   review_session E sid s =
     (Inr (JObj [(''feedback'', fb), (''improvement'', json_or_null imp),
                 (''token_usage'', to_dict (floats E) t2 m)]),
      s\<lparr>active_sessions := (active_sessions s)(sid := None),
        sessions_dir := AList.update (sid @ ''.json'')
           (json_dumps E (session_data E m session fb imp t2)) (sessions_dir s),
        placed := p2\<rparr>)"
  by (simp add: review_session_def save_session_def)

lemma save_quick_session_Inr:
  "save_quick_session E sid data files = Inr files' \<Longrightarrow>
     disk_writable E \<and> files' = AList.update (sid @ ''.json'') (json_dumps E data) files"
  by (auto simp: save_quick_session_def split: if_splits)

text \<open>What the record of a session holds under its keys.\<close>

lemma session_data_fields:
  "getitem (session_data E m session fb imp t) ''feedback'' = Inr fb
   \<and> getitem (session_data E m session fb imp t) ''improvement'' = Inr (json_or_null imp)
   \<and> getitem (session_data E m session fb imp t) ''scenario'' = Inr (s_scenario session)
   \<and> getitem (session_data E m session fb imp t) ''user_responses'' =
       Inr (JObj (map (\<lambda>(k, v). (k, JStr v)) (user_responses session)))
   \<and> getitem (session_data E m session fb imp t) ''time_used'' =
       Inr (JObj (map (\<lambda>(k, v). (k, JInt v)) (time_used session)))
   \<and> getitem (session_data E m session fb imp t) ''token_usage'' = Inr (to_dict (floats E) t m)"
  by (simp add: session_data_def getitem_def)

section \<open>Orchestrator: finalizing a session\<close>

text \<open>
  Claim C1, as stated, at a concrete input: an active session with a complete scenario,
  for which the review prompt builds, and an oracle that answers the review call with text
  that is not JSON, so that the gateway returns the sentinel record. The review
  nevertheless succeeds, with the sentinel as its feedback; the session is gone from the
  in-memory table, and the record in the store holds the sentinel under \<open>feedback\<close>.
\<close>

theorem sentinel_review_is_persisted:
  "fst (generate_review (stub_env ''not json'') full_scenario [(''doc1_notes'', ''valve rating'')]
          new_tracker []) =
     Inr (JObj [(''error'', JStr ''Failed to parse JSON response''),
                (''raw_response'', JStr ''not json''),
                (''parse_error'', JStr ''Expecting value'')])
   \<and> active_sessions one_session_state ''2026-02-07_001'' = Some a_session
   \<and> s_scenario a_session = full_scenario
   \<and> sessions_dir one_session_state = []
   \<and> and_then (fst (review_session (stub_env ''not json'') ''2026-02-07_001'' one_session_state))
        (\<lambda>r. dict_get r ''feedback'' JNull) =
     Inr (JObj [(''error'', JStr ''Failed to parse JSON response''),
                (''raw_response'', JStr ''not json''),
                (''parse_error'', JStr ''Expecting value'')])
   \<and> active_sessions (snd (review_session (stub_env ''not json'') ''2026-02-07_001'' one_session_state))
        ''2026-02-07_001'' = None
   \<and> sessions_dir (snd (review_session (stub_env ''not json'') ''2026-02-07_001'' one_session_state))
      = [(''2026-02-07_001.json'',
          json_dumps (stub_env ''not json'')
            (session_data (stub_env ''not json'') opus a_session
               (JObj [(''error'', JStr ''Failed to parse JSON response''),
                      (''raw_response'', JStr ''not json''),
                      (''parse_error'', JStr ''Expecting value'')])
               None (track new_tracker 1000 500 ''review'')))]
   \<and> getitem
        (session_data (stub_env ''not json'') opus a_session
           (JObj [(''error'', JStr ''Failed to parse JSON response''),
                  (''raw_response'', JStr ''not json''),
                  (''parse_error'', JStr ''Expecting value'')])
           None (track new_tracker 1000 500 ''review'')) ''feedback'' =
      Inr (JObj [(''error'', JStr ''Failed to parse JSON response''),
                 (''raw_response'', JStr ''not json''),
                 (''parse_error'', JStr ''Expecting value'')])"
  by code_simp

text \<open>
  Claim C1, amended. For an active session: if the review call raises, the review fails
  with status 500; whenever the review fails, for whatever reason, nothing is written to
  the store and the session stays in the in-memory table, changed in its tracker at most;
  whenever it succeeds, the write succeeded, the record is in the store and the entry is
  removed. A review result that carries the error tag (the parse-failure sentinel does) is
  not by itself a failure: if the past summaries can be read and the disk is writable, the
  review completes without a comparison, the tagged result is the feedback of the
  persisted record and of the response, and the entry is removed.
\<close>

theorem review_atomicity:
  assumes act: "active_sessions s sid = Some session"
  shows
    "(\<forall>e t p. generate_review E (s_scenario session) (user_responses session) (s_tracker session)
                 (placed s) = (Inl e, t, p) \<longrightarrow>
        review_session E sid s =
          (Inl (HTTPException 500 ''Review failed: '' (Some e)),
           s\<lparr>active_sessions := (active_sessions s)(sid \<mapsto> session\<lparr>s_tracker := t\<rparr>), placed := p\<rparr>))
     \<and> (\<forall>e s'. review_session E sid s = (Inl e, s') \<longrightarrow>
          sessions_dir s' = sessions_dir s \<and>
          (\<exists>t. active_sessions s' sid = Some (session\<lparr>s_tracker := t\<rparr>)))
     \<and> (\<forall>r s'. review_session E sid s = (Inr r, s') \<longrightarrow>
          disk_writable E \<and> active_sessions s' sid = None \<and>
          (\<exists>data. sessions_dir s' = AList.update (sid @ ''.json'') (json_dumps E data) (sessions_dir s)))
     \<and> (\<forall>fb t p past. generate_review E (s_scenario session) (user_responses session)
                 (s_tracker session) (placed s) = (Inr fb, t, p)
            \<and> py_in ''error'' fb = Inr True
            \<and> get_past_summaries E 5 (sessions_dir s) = Inr past
            \<and> disk_writable E \<longrightarrow>
          (\<exists>m. model (floats E) (app_config E) = Inr m \<and>
             review_session E sid s =
               (Inr (JObj [(''feedback'', fb), (''improvement'', JNull),
                           (''token_usage'', to_dict (floats E) t m)]),
                s\<lparr>active_sessions := (active_sessions s)(sid := None),
                  sessions_dir := AList.update (sid @ ''.json'')
                     (json_dumps E (session_data E m session fb None t)) (sessions_dir s),
                  placed := p\<rparr>)
             \<and> getitem (session_data E m session fb None t) ''feedback'' = Inr fb
             \<and> getitem (session_data E m session fb None t) ''improvement'' = Inr JNull))
     \<and> (\<forall>raw cleaned msg. json_loads E cleaned = Inl msg \<longrightarrow>
          py_in ''error'' (parse_json E raw cleaned) = Inr True)"
proof -
  have A: "\<forall>e t p. generate_review E (s_scenario session) (user_responses session) (s_tracker session)
                 (placed s) = (Inl e, t, p) \<longrightarrow>
        review_session E sid s =
          (Inl (HTTPException 500 ''Review failed: '' (Some e)),
           s\<lparr>active_sessions := (active_sessions s)(sid \<mapsto> session\<lparr>s_tracker := t\<rparr>), placed := p\<rparr>)"
    using review_session_raises [OF act] by (simp add: tracked_def)
  have B: "\<forall>e s'. review_session E sid s = (Inl e, s') \<longrightarrow>
          sessions_dir s' = sessions_dir s \<and>
          (\<exists>t. active_sessions s' sid = Some (session\<lparr>s_tracker := t\<rparr>))"
  proof (intro allI impI)
    fix e s'
    assume "review_session E sid s = (Inl e, s')"
    from review_session_failed [OF act this]
    obtain t p where "s' = tracked s sid session t p" by blast
    then show "sessions_dir s' = sessions_dir s \<and>
          (\<exists>t. active_sessions s' sid = Some (session\<lparr>s_tracker := t\<rparr>))"
      by (auto simp: tracked_def)
  qed
  have C: "\<forall>r s'. review_session E sid s = (Inr r, s') \<longrightarrow>
          disk_writable E \<and> active_sessions s' sid = None \<and>
          (\<exists>data. sessions_dir s' = AList.update (sid @ ''.json'') (json_dumps E data) (sessions_dir s))"
  proof (intro allI impI)
    fix r s'
    assume "review_session E sid s = (Inr r, s')"
    from review_session_done [OF act this]
    show "disk_writable E \<and> active_sessions s' sid = None \<and>
          (\<exists>data. sessions_dir s' = AList.update (sid @ ''.json'') (json_dumps E data) (sessions_dir s))"
      by auto
  qed
  have D: "\<forall>fb t p past. generate_review E (s_scenario session) (user_responses session)
                 (s_tracker session) (placed s) = (Inr fb, t, p)
            \<and> py_in ''error'' fb = Inr True
            \<and> get_past_summaries E 5 (sessions_dir s) = Inr past
            \<and> disk_writable E \<longrightarrow>
          (\<exists>m. model (floats E) (app_config E) = Inr m \<and>
             review_session E sid s =
               (Inr (JObj [(''feedback'', fb), (''improvement'', JNull),
                           (''token_usage'', to_dict (floats E) t m)]),
                s\<lparr>active_sessions := (active_sessions s)(sid := None),
                  sessions_dir := AList.update (sid @ ''.json'')
                     (json_dumps E (session_data E m session fb None t)) (sessions_dir s),
                  placed := p\<rparr>)
             \<and> getitem (session_data E m session fb None t) ''feedback'' = Inr fb
             \<and> getitem (session_data E m session fb None t) ''improvement'' = Inr JNull)"
  proof (intro allI impI)
    fix fb t p past
    assume h: "generate_review E (s_scenario session) (user_responses session)
                 (s_tracker session) (placed s) = (Inr fb, t, p)
            \<and> py_in ''error'' fb = Inr True
            \<and> get_past_summaries E 5 (sessions_dir s) = Inr past
            \<and> disk_writable E"
    then obtain m where m: "model (floats E) (app_config E) = Inr m"
      using generate_review_Inr by blast
    have step: "improvement_step E past fb t p = Inr (None, t, p)"
      using h by (simp add: improvement_step_skipped)
    have "review_session E sid s =
               (Inr (JObj [(''feedback'', fb), (''improvement'', json_or_null None),
                           (''token_usage'', to_dict (floats E) t m)]),
                s\<lparr>active_sessions := (active_sessions s)(sid := None),
                  sessions_dir := AList.update (sid @ ''.json'')
                     (json_dumps E (session_data E m session fb None t)) (sessions_dir s),
                  placed := p\<rparr>)"
      using h by (intro review_session_completes [OF act _ _ step m]) simp_all
    then show "\<exists>m. model (floats E) (app_config E) = Inr m \<and>
             review_session E sid s =
               (Inr (JObj [(''feedback'', fb), (''improvement'', JNull),
                           (''token_usage'', to_dict (floats E) t m)]),
                s\<lparr>active_sessions := (active_sessions s)(sid := None),
                  sessions_dir := AList.update (sid @ ''.json'')
                     (json_dumps E (session_data E m session fb None t)) (sessions_dir s),
                  placed := p\<rparr>)
             \<and> getitem (session_data E m session fb None t) ''feedback'' = Inr fb
             \<and> getitem (session_data E m session fb None t) ''improvement'' = Inr JNull"
      using m session_data_fields [of E _ session fb None t] by (auto simp: json_or_null_def)
  qed
  have F: "\<forall>raw cleaned msg. json_loads E cleaned = Inl msg \<longrightarrow>
          py_in ''error'' (parse_json E raw cleaned) = Inr True"
    by (simp add: sentinel_tagged)
  show ?thesis
    by (rule conjI [OF A conjI [OF B conjI [OF C conjI [OF D F]]]])
qed

text \<open>
  The theorem at work: without the credential the review call raises and the session
  stays; with an oracle that answers text that is not JSON the record is written and the
  entry removed.
\<close>

theorem review_atomicity_witness:
  "active_sessions one_session_state ''2026-02-07_001'' = Some a_session
   \<and> generate_review keyless_env (s_scenario a_session) (user_responses a_session)
        (s_tracker a_session) (placed one_session_state) = (Inl ValueError_api_key, new_tracker, [])
   \<and> review_session keyless_env ''2026-02-07_001'' one_session_state =
        (Inl (HTTPException 500 ''Review failed: '' (Some ValueError_api_key)),
         one_session_state\<lparr>active_sessions :=
            (active_sessions one_session_state)(''2026-02-07_001'' \<mapsto> a_session\<lparr>s_tracker := new_tracker\<rparr>),
            placed := []\<rparr>)
   \<and> sessions_dir (snd (review_session keyless_env ''2026-02-07_001'' one_session_state)) = []
   \<and> generate_review (stub_env ''not json'') (s_scenario a_session) (user_responses a_session)
        (s_tracker a_session) (placed one_session_state) =
       (Inr (JObj [(''error'', JStr ''Failed to parse JSON response''),
                   (''raw_response'', JStr ''not json''),
                   (''parse_error'', JStr ''Expecting value'')]),
        track new_tracker 1000 500 ''review'',
        [\<lparr>rq_model = ''claude-opus-4-6'', rq_max_tokens = 4096, rq_system = ''review system'',
          rq_user = ''review user''\<rparr>])
   \<and> py_in ''error'' (JObj [(''error'', JStr ''Failed to parse JSON response''),
                   (''raw_response'', JStr ''not json''),
                   (''parse_error'', JStr ''Expecting value'')]) = (Inr True :: rat exn + bool)
   \<and> get_past_summaries (stub_env ''not json'') 5 (sessions_dir one_session_state) = Inr []
   \<and> disk_writable (stub_env ''not json'')
   \<and> (\<exists>m. model (floats (stub_env ''not json'')) (app_config (stub_env ''not json'')) = Inr m \<and>
          review_session (stub_env ''not json'') ''2026-02-07_001'' one_session_state =
            (Inr (JObj [(''feedback'', (JObj [(''error'', JStr ''Failed to parse JSON response''),
                   (''raw_response'', JStr ''not json''),
                   (''parse_error'', JStr ''Expecting value'')])),
                        (''improvement'', JNull),
                        (''token_usage'', to_dict (floats (stub_env ''not json''))
                            (track new_tracker 1000 500 ''review'') m)]),
             one_session_state\<lparr>active_sessions :=
                 (active_sessions one_session_state)(''2026-02-07_001'' := None),
               sessions_dir := AList.update (''2026-02-07_001'' @ ''.json'')
                  (json_dumps (stub_env ''not json'')
                     (session_data (stub_env ''not json'') m a_session
                        (JObj [(''error'', JStr ''Failed to parse JSON response''),
                   (''raw_response'', JStr ''not json''),
                   (''parse_error'', JStr ''Expecting value'')])
                        None (track new_tracker 1000 500 ''review''))) (sessions_dir one_session_state),
               placed := [\<lparr>rq_model = ''claude-opus-4-6'', rq_max_tokens = 4096, rq_system = ''review system'',
          rq_user = ''review user''\<rparr>]\<rparr>)
          \<and> getitem (session_data (stub_env ''not json'') m a_session
                        (JObj [(''error'', JStr ''Failed to parse JSON response''),
                   (''raw_response'', JStr ''not json''),
                   (''parse_error'', JStr ''Expecting value'')])
                        None (track new_tracker 1000 500 ''review'')) ''feedback'' =
              Inr (JObj [(''error'', JStr ''Failed to parse JSON response''),
                   (''raw_response'', JStr ''not json''),
                   (''parse_error'', JStr ''Expecting value'')])
          \<and> getitem (session_data (stub_env ''not json'') m a_session
                        (JObj [(''error'', JStr ''Failed to parse JSON response''),
                   (''raw_response'', JStr ''not json''),
                   (''parse_error'', JStr ''Expecting value'')])
                        None (track new_tracker 1000 500 ''review'')) ''improvement'' = Inr JNull)
   \<and> active_sessions (snd (review_session (stub_env ''not json'') ''2026-02-07_001'' one_session_state))
        ''2026-02-07_001'' = None
   \<and> (\<exists>data. sessions_dir (snd (review_session (stub_env ''not json'') ''2026-02-07_001'' one_session_state))
        = AList.update (''2026-02-07_001'' @ ''.json'') (json_dumps (stub_env ''not json'') data)
            (sessions_dir one_session_state))"
proof -
  have act: "active_sessions one_session_state ''2026-02-07_001'' = Some a_session"
    by (simp add: one_session_state_def)
  have raises: "generate_review keyless_env (s_scenario a_session) (user_responses a_session)
        (s_tracker a_session) (placed one_session_state) = (Inl ValueError_api_key, new_tracker, [])"
    by code_simp
  note thm1 = review_atomicity [OF act, of keyless_env]
  from thm1 raises have r1: "review_session keyless_env ''2026-02-07_001'' one_session_state =
        (Inl (HTTPException 500 ''Review failed: '' (Some ValueError_api_key)),
         one_session_state\<lparr>active_sessions :=
            (active_sessions one_session_state)(''2026-02-07_001'' \<mapsto> a_session\<lparr>s_tracker := new_tracker\<rparr>),
            placed := []\<rparr>)"
    by blast
  with thm1 have r2: "sessions_dir (snd (review_session keyless_env ''2026-02-07_001'' one_session_state)) = []"
    by (simp add: one_session_state_def)
  have rev: "generate_review (stub_env ''not json'') (s_scenario a_session) (user_responses a_session)
        (s_tracker a_session) (placed one_session_state) =
       (Inr (JObj [(''error'', JStr ''Failed to parse JSON response''),
                   (''raw_response'', JStr ''not json''),
                   (''parse_error'', JStr ''Expecting value'')]),
        track new_tracker 1000 500 ''review'',
        [\<lparr>rq_model = ''claude-opus-4-6'', rq_max_tokens = 4096, rq_system = ''review system'',
          rq_user = ''review user''\<rparr>])"
    by code_simp
  have tag: "py_in ''error'' (JObj [(''error'', JStr ''Failed to parse JSON response''),
                   (''raw_response'', JStr ''not json''),
                   (''parse_error'', JStr ''Expecting value'')]) = (Inr True :: rat exn + bool)"
    by code_simp
  have past: "get_past_summaries (stub_env ''not json'') 5 (sessions_dir one_session_state) = Inr []"
    by code_simp
  have wr: "disk_writable (stub_env ''not json'')"
    by code_simp
  note thm2 = review_atomicity [OF act, of "stub_env ''not json''"]
  have fin: "(\<exists>m. model (floats (stub_env ''not json'')) (app_config (stub_env ''not json'')) = Inr m \<and>
          review_session (stub_env ''not json'') ''2026-02-07_001'' one_session_state =
            (Inr (JObj [(''feedback'', (JObj [(''error'', JStr ''Failed to parse JSON response''),
                   (''raw_response'', JStr ''not json''),
                   (''parse_error'', JStr ''Expecting value'')])),
                        (''improvement'', JNull),
                        (''token_usage'', to_dict (floats (stub_env ''not json''))
                            (track new_tracker 1000 500 ''review'') m)]),
             one_session_state\<lparr>active_sessions :=
                 (active_sessions one_session_state)(''2026-02-07_001'' := None),
               sessions_dir := AList.update (''2026-02-07_001'' @ ''.json'')
                  (json_dumps (stub_env ''not json'')
                     (session_data (stub_env ''not json'') m a_session
                        (JObj [(''error'', JStr ''Failed to parse JSON response''),
                   (''raw_response'', JStr ''not json''),
                   (''parse_error'', JStr ''Expecting value'')])
                        None (track new_tracker 1000 500 ''review''))) (sessions_dir one_session_state),
               placed := [\<lparr>rq_model = ''claude-opus-4-6'', rq_max_tokens = 4096, rq_system = ''review system'',
          rq_user = ''review user''\<rparr>]\<rparr>)
          \<and> getitem (session_data (stub_env ''not json'') m a_session
                        (JObj [(''error'', JStr ''Failed to parse JSON response''),
                   (''raw_response'', JStr ''not json''),
                   (''parse_error'', JStr ''Expecting value'')])
                        None (track new_tracker 1000 500 ''review'')) ''feedback'' =
              Inr (JObj [(''error'', JStr ''Failed to parse JSON response''),
                   (''raw_response'', JStr ''not json''),
                   (''parse_error'', JStr ''Expecting value'')])
          \<and> getitem (session_data (stub_env ''not json'') m a_session
                        (JObj [(''error'', JStr ''Failed to parse JSON response''),
                   (''raw_response'', JStr ''not json''),
                   (''parse_error'', JStr ''Expecting value'')])
                        None (track new_tracker 1000 500 ''review'')) ''improvement'' = Inr JNull)"
    using thm2 [THEN conjunct2, THEN conjunct2, THEN conjunct2, THEN conjunct1] rev tag past wr
    by blast
  then obtain r s' where run: "review_session (stub_env ''not json'') ''2026-02-07_001'' one_session_state
      = (Inr r, s')"
    by blast
  then have s': "s' = snd (review_session (stub_env ''not json'') ''2026-02-07_001'' one_session_state)"
    by simp
  from thm2 [THEN conjunct2, THEN conjunct2, THEN conjunct1] run
  have r3: "active_sessions s' ''2026-02-07_001'' = None
     \<and> (\<exists>data. sessions_dir s'
        = AList.update (''2026-02-07_001'' @ ''.json'') (json_dumps (stub_env ''not json'') data)
            (sessions_dir one_session_state))"
    by blast
  from act raises r1 r2 rev tag past wr fin r3 [unfolded s'] show ?thesis by blast
qed

section \<open>Orchestrator: the improvement comparison\<close>

text \<open>
  Claim C8, as stated, at a concrete input: one reviewed session in the store, a review
  reply that parses and carries no error tag, and a comparison reply that is not JSON. The
  comparison has failed to parse, and the gateway returns the sentinel instead of raising;
  the improvement of the response and of the record is that sentinel, not an absent
  comparison.
\<close>

theorem unparsed_comparison_is_stored:
  "active_sessions history_state ''2026-02-07_001'' = Some a_session
   \<and> fst (generate_review garbled_env (s_scenario a_session) (user_responses a_session)
          (s_tracker a_session) (placed history_state)) = Inr full_feedback
   \<and> get_past_summaries garbled_env 5 (sessions_dir history_state) = Inr [a_summary]
   \<and> py_in ''error'' full_feedback = (Inr False :: rat exn + bool)
   \<and> fst (generate_improvement_comparison garbled_env [a_summary] full_feedback
          (track new_tracker 1000 500 ''review'')
          [\<lparr>rq_model = ''claude-opus-4-6'', rq_max_tokens = 4096, rq_system = ''review system'',
          rq_user = ''review user''\<rparr>]) =
       Inr (JObj [(''error'', JStr ''Failed to parse JSON response''),
                (''raw_response'', JStr ''not json''),
                (''parse_error'', JStr ''Expecting value'')])
   \<and> and_then (fst (review_session garbled_env ''2026-02-07_001'' history_state))
        (\<lambda>r. getitem r ''improvement'') =
       Inr (JObj [(''error'', JStr ''Failed to parse JSON response''),
                (''raw_response'', JStr ''not json''),
                (''parse_error'', JStr ''Expecting value'')])
   \<and> active_sessions (snd (review_session garbled_env ''2026-02-07_001'' history_state))
        ''2026-02-07_001'' = None
   \<and> map_of (sessions_dir (snd (review_session garbled_env ''2026-02-07_001'' history_state)))
        ''2026-02-07_001.json'' =
       Some (json_dumps garbled_env
         (session_data garbled_env opus a_session full_feedback
            (Some (JObj [(''error'', JStr ''Failed to parse JSON response''),
                (''raw_response'', JStr ''not json''),
                (''parse_error'', JStr ''Expecting value'')]))
            (track (track new_tracker 1000 500 ''review'') 1000 500 ''improvement_comparison'')))
   \<and> getitem
        (session_data garbled_env opus a_session full_feedback
            (Some (JObj [(''error'', JStr ''Failed to parse JSON response''),
                (''raw_response'', JStr ''not json''),
                (''parse_error'', JStr ''Expecting value'')]))
            (track (track new_tracker 1000 500 ''review'') 1000 500 ''improvement_comparison''))
        ''improvement'' =
       Inr (JObj [(''error'', JStr ''Failed to parse JSON response''),
                (''raw_response'', JStr ''not json''),
                (''parse_error'', JStr ''Expecting value'')])"
  by code_simp

text \<open>
  Claim C8, amended. For an active session whose review call returned a result, with the
  past summaries read and the disk writable, and for a result on which the test
  \<open>"error" in feedback\<close> has a value, which it has on every dict (the declared result of
  the gateway), list and string. When there is no past summary or the result carries the
  error tag, the review completes without a comparison, and no request beyond the review's
  is placed with the oracle; when there are past summaries and the result carries no error
  tag, the comparison is run, and whatever it does, the review completes, the record is
  persisted and the entry removed: an exception of the comparison leaves the improvement
  absent (\<open>null\<close> in the record and in the response), and what the comparison returns,
  the sentinel of a reply that does not parse included, is the improvement of the record
  and of the response. In that second case the oracle receives the comparison request
  whenever its prompt builds and the budget allows the call.
\<close>

theorem comparison_downgrade:
  assumes act: "active_sessions s sid = Some session"
      and rev: "generate_review E (s_scenario session) (user_responses session) (s_tracker session)
                  (placed s) = (Inr fb, t1, p1)"
      and past: "get_past_summaries E 5 (sessions_dir s) = Inr past"
      and wr: "disk_writable E"
  shows
    "(past = [] \<or> py_in ''error'' fb = Inr True \<longrightarrow>
        (\<exists>m. model (floats E) (app_config E) = Inr m \<and>
           review_session E sid s =
             (Inr (JObj [(''feedback'', fb), (''improvement'', JNull),
                         (''token_usage'', to_dict (floats E) t1 m)]),
              s\<lparr>active_sessions := (active_sessions s)(sid := None),
                sessions_dir := AList.update (sid @ ''.json'')
                   (json_dumps E (session_data E m session fb None t1)) (sessions_dir s),
                placed := p1\<rparr>)
           \<and> getitem (session_data E m session fb None t1) ''feedback'' = Inr fb
           \<and> getitem (session_data E m session fb None t1) ''improvement'' = Inr JNull))
     \<and> (past \<noteq> [] \<and> py_in ''error'' fb = Inr False \<longrightarrow>
        (\<forall>r2 t2 p2. generate_improvement_comparison E past fb t1 p1 = (r2, t2, p2) \<longrightarrow>
           (\<exists>m. model (floats E) (app_config E) = Inr m \<and>
              review_session E sid s =
                (Inr (JObj [(''feedback'', fb),
                            (''improvement'', (case r2 of Inl e \<Rightarrow> JNull | Inr v \<Rightarrow> v)),
                            (''token_usage'', to_dict (floats E) t2 m)]),
                 s\<lparr>active_sessions := (active_sessions s)(sid := None),
                   sessions_dir := AList.update (sid @ ''.json'')
                      (json_dumps E (session_data E m session fb
                         (case r2 of Inl e \<Rightarrow> None | Inr v \<Rightarrow> Some v) t2)) (sessions_dir s),
                   placed := p2\<rparr>)
              \<and> getitem (session_data E m session fb
                         (case r2 of Inl e \<Rightarrow> None | Inr v \<Rightarrow> Some v) t2) ''feedback'' = Inr fb
              \<and> getitem (session_data E m session fb
                         (case r2 of Inl e \<Rightarrow> None | Inr v \<Rightarrow> Some v) t2) ''improvement'' =
                  Inr (case r2 of Inl e \<Rightarrow> JNull | Inr v \<Rightarrow> v))))
     \<and> (past \<noteq> [] \<and> py_in ''error'' fb = Inr False \<longrightarrow>
        (\<forall>up m. get_improvement_user_prompt (prompt_texts E) past fb = Inr up
             \<and> model (floats E) (app_config E) = Inr m
             \<and> \<not> float_ge (floats E) (estimate_cost (floats E) t1 m) (cost_limit (app_config E)) \<longrightarrow>
           placed (snd (review_session E sid s)) =
             p1 @ [\<lparr>rq_model = api_name m, rq_max_tokens = 1024,
                    rq_system = IMPROVEMENT_SYSTEM_PROMPT (prompt_texts E), rq_user = up\<rparr>]))"
proof -
  obtain m where m: "model (floats E) (app_config E) = Inr m" and key: "ANTHROPIC_API_KEY E \<noteq> []"
    using generate_review_Inr [OF rev] by blast
  have j: "json_or_null (case r2 of Inl e \<Rightarrow> None | Inr v \<Rightarrow> Some v) =
        (case r2 of Inl e \<Rightarrow> JNull | Inr v \<Rightarrow> v)" for r2 :: "'a exn + 'a json"
    by (simp add: json_or_null_def split: sum.splits)
  have A: "past = [] \<or> py_in ''error'' fb = Inr True \<longrightarrow>
        (\<exists>m. model (floats E) (app_config E) = Inr m \<and>
           review_session E sid s =
             (Inr (JObj [(''feedback'', fb), (''improvement'', JNull),
                         (''token_usage'', to_dict (floats E) t1 m)]),
              s\<lparr>active_sessions := (active_sessions s)(sid := None),
                sessions_dir := AList.update (sid @ ''.json'')
                   (json_dumps E (session_data E m session fb None t1)) (sessions_dir s),
                placed := p1\<rparr>)
           \<and> getitem (session_data E m session fb None t1) ''feedback'' = Inr fb
           \<and> getitem (session_data E m session fb None t1) ''improvement'' = Inr JNull)"
  proof
    assume c: "past = [] \<or> py_in ''error'' fb = Inr True"
    have step: "improvement_step E past fb t1 p1 = Inr (None, t1, p1)"
      using c by (rule improvement_step_skipped)
    from review_session_completes [OF act rev past step m wr] m
      session_data_fields [of E m session fb None t1]
    show "(\<exists>m. model (floats E) (app_config E) = Inr m \<and>
           review_session E sid s =
             (Inr (JObj [(''feedback'', fb), (''improvement'', JNull),
                         (''token_usage'', to_dict (floats E) t1 m)]),
              s\<lparr>active_sessions := (active_sessions s)(sid := None),
                sessions_dir := AList.update (sid @ ''.json'')
                   (json_dumps E (session_data E m session fb None t1)) (sessions_dir s),
                placed := p1\<rparr>)
           \<and> getitem (session_data E m session fb None t1) ''feedback'' = Inr fb
           \<and> getitem (session_data E m session fb None t1) ''improvement'' = Inr JNull)"
      by (auto simp: json_or_null_def)
  qed
  have run: "review_session E sid s =
                (Inr (JObj [(''feedback'', fb),
                            (''improvement'', (case r2 of Inl e \<Rightarrow> JNull | Inr v \<Rightarrow> v)),
                            (''token_usage'', to_dict (floats E) t2 m)]),
                 s\<lparr>active_sessions := (active_sessions s)(sid := None),
                   sessions_dir := AList.update (sid @ ''.json'')
                      (json_dumps E (session_data E m session fb
                         (case r2 of Inl e \<Rightarrow> None | Inr v \<Rightarrow> Some v) t2)) (sessions_dir s),
                   placed := p2\<rparr>)"
    if c: "past \<noteq> []" "py_in ''error'' fb = Inr False"
      and g: "generate_improvement_comparison E past fb t1 p1 = (r2, t2, p2)" for r2 t2 p2
  proof -
    have step: "improvement_step E past fb t1 p1 =
        Inr (case r2 of Inl e \<Rightarrow> None | Inr v \<Rightarrow> Some v, t2, p2)"
      using c g by (rule improvement_step_invoked)
    show ?thesis
      using review_session_completes [OF act rev past step m wr] by (simp add: j)
  qed
  have B: "past \<noteq> [] \<and> py_in ''error'' fb = Inr False \<longrightarrow>
        (\<forall>r2 t2 p2. generate_improvement_comparison E past fb t1 p1 = (r2, t2, p2) \<longrightarrow>
           (\<exists>m. model (floats E) (app_config E) = Inr m \<and>
              review_session E sid s =
                (Inr (JObj [(''feedback'', fb),
                            (''improvement'', (case r2 of Inl e \<Rightarrow> JNull | Inr v \<Rightarrow> v)),
                            (''token_usage'', to_dict (floats E) t2 m)]),
                 s\<lparr>active_sessions := (active_sessions s)(sid := None),
                   sessions_dir := AList.update (sid @ ''.json'')
                      (json_dumps E (session_data E m session fb
                         (case r2 of Inl e \<Rightarrow> None | Inr v \<Rightarrow> Some v) t2)) (sessions_dir s),
                   placed := p2\<rparr>)
              \<and> getitem (session_data E m session fb
                         (case r2 of Inl e \<Rightarrow> None | Inr v \<Rightarrow> Some v) t2) ''feedback'' = Inr fb
              \<and> getitem (session_data E m session fb
                         (case r2 of Inl e \<Rightarrow> None | Inr v \<Rightarrow> Some v) t2) ''improvement'' =
                  Inr (case r2 of Inl e \<Rightarrow> JNull | Inr v \<Rightarrow> v)))"
  proof (intro impI allI)
    fix r2 t2 p2
    assume c: "past \<noteq> [] \<and> py_in ''error'' fb = Inr False"
    assume g: "generate_improvement_comparison E past fb t1 p1 = (r2, t2, p2)"
    from run [OF _ _ g] c m
      session_data_fields [of E m session fb "case r2 of Inl e \<Rightarrow> None | Inr v \<Rightarrow> Some v" t2]
    show "(\<exists>m. model (floats E) (app_config E) = Inr m \<and>
              review_session E sid s =
                (Inr (JObj [(''feedback'', fb),
                            (''improvement'', (case r2 of Inl e \<Rightarrow> JNull | Inr v \<Rightarrow> v)),
                            (''token_usage'', to_dict (floats E) t2 m)]),
                 s\<lparr>active_sessions := (active_sessions s)(sid := None),
                   sessions_dir := AList.update (sid @ ''.json'')
                      (json_dumps E (session_data E m session fb
                         (case r2 of Inl e \<Rightarrow> None | Inr v \<Rightarrow> Some v) t2)) (sessions_dir s),
                   placed := p2\<rparr>)
              \<and> getitem (session_data E m session fb
                         (case r2 of Inl e \<Rightarrow> None | Inr v \<Rightarrow> Some v) t2) ''feedback'' = Inr fb
              \<and> getitem (session_data E m session fb
                         (case r2 of Inl e \<Rightarrow> None | Inr v \<Rightarrow> Some v) t2) ''improvement'' =
                  Inr (case r2 of Inl e \<Rightarrow> JNull | Inr v \<Rightarrow> v))"
      by (auto simp: j)
  qed
  have C: "past \<noteq> [] \<and> py_in ''error'' fb = Inr False \<longrightarrow>
        (\<forall>up m. get_improvement_user_prompt (prompt_texts E) past fb = Inr up
             \<and> model (floats E) (app_config E) = Inr m
             \<and> \<not> float_ge (floats E) (estimate_cost (floats E) t1 m) (cost_limit (app_config E)) \<longrightarrow>
           placed (snd (review_session E sid s)) =
             p1 @ [\<lparr>rq_model = api_name m, rq_max_tokens = 1024,
                    rq_system = IMPROVEMENT_SYSTEM_PROMPT (prompt_texts E), rq_user = up\<rparr>])"
  proof (intro impI allI)
    fix up m'
    assume c: "past \<noteq> [] \<and> py_in ''error'' fb = Inr False"
    assume h: "get_improvement_user_prompt (prompt_texts E) past fb = Inr up
             \<and> model (floats E) (app_config E) = Inr m'
             \<and> \<not> float_ge (floats E) (estimate_cost (floats E) t1 m') (cost_limit (app_config E))"
    obtain r2 t2 p2 where g: "generate_improvement_comparison E past fb t1 p1 = (r2, t2, p2)"
      by (metis prod_cases3)
    have "p2 = p1 @ [\<lparr>rq_model = api_name m', rq_max_tokens = 1024,
                    rq_system = IMPROVEMENT_SYSTEM_PROMPT (prompt_texts E), rq_user = up\<rparr>]"
      using g h key
      by (auto simp: generate_improvement_comparison_def call_claude_def get_api_key_def Let_def
          split: sum.splits)
    then show "placed (snd (review_session E sid s)) =
             p1 @ [\<lparr>rq_model = api_name m', rq_max_tokens = 1024,
                    rq_system = IMPROVEMENT_SYSTEM_PROMPT (prompt_texts E), rq_user = up\<rparr>]"
      using run [OF _ _ g] c by simp
  qed
  show ?thesis
    by (rule conjI [OF A conjI [OF B C]])
qed

text \<open>
  The theorem at work: one reviewed session in the store, a review that parses, and an
  oracle that fails on the comparison request. The request was placed, the improvement is
  absent, and the review is persisted.
\<close>

theorem comparison_downgrade_witness:
  "active_sessions history_state ''2026-02-07_001'' = Some a_session
   \<and> generate_review flaky_env (s_scenario a_session) (user_responses a_session)
        (s_tracker a_session) (placed history_state) =
       (Inr full_feedback, track new_tracker 1000 500 ''review'',
        [\<lparr>rq_model = ''claude-opus-4-6'', rq_max_tokens = 4096, rq_system = ''review system'',
          rq_user = ''review user''\<rparr>])
   \<and> get_past_summaries flaky_env 5 (sessions_dir history_state) = Inr [a_summary]
   \<and> disk_writable flaky_env
   \<and> py_in ''error'' full_feedback = (Inr False :: rat exn + bool)
   \<and> generate_improvement_comparison flaky_env [a_summary] full_feedback (track new_tracker 1000 500 ''review'')
        [\<lparr>rq_model = ''claude-opus-4-6'', rq_max_tokens = 4096, rq_system = ''review system'',
          rq_user = ''review user''\<rparr>] =
       (Inl (APIError ''overloaded''), track new_tracker 1000 500 ''review'',
        [\<lparr>rq_model = ''claude-opus-4-6'', rq_max_tokens = 4096, rq_system = ''review system'',
          rq_user = ''review user''\<rparr>,
         \<lparr>rq_model = ''claude-opus-4-6'', rq_max_tokens = 1024, rq_system = ''improvement system'',
          rq_user = ''improvement user''\<rparr>])
   \<and> (\<exists>m. model (floats flaky_env) (app_config flaky_env) = Inr m \<and>
          review_session flaky_env ''2026-02-07_001'' history_state =
            (Inr (JObj [(''feedback'', full_feedback), (''improvement'', JNull),
                        (''token_usage'', to_dict (floats flaky_env) (track new_tracker 1000 500 ''review'') m)]),
             history_state\<lparr>active_sessions := (active_sessions history_state)(''2026-02-07_001'' := None),
               sessions_dir := AList.update (''2026-02-07_001'' @ ''.json'')
                  (json_dumps flaky_env (session_data flaky_env m a_session full_feedback None
                     (track new_tracker 1000 500 ''review''))) (sessions_dir history_state),
               placed :=
                 [\<lparr>rq_model = ''claude-opus-4-6'', rq_max_tokens = 4096, rq_system = ''review system'',
          rq_user = ''review user''\<rparr>,
                  \<lparr>rq_model = ''claude-opus-4-6'', rq_max_tokens = 1024, rq_system = ''improvement system'',
          rq_user = ''improvement user''\<rparr>]\<rparr>)
          \<and> getitem (session_data flaky_env m a_session full_feedback None (track new_tracker 1000 500 ''review''))
                ''feedback'' = Inr full_feedback
          \<and> getitem (session_data flaky_env m a_session full_feedback None (track new_tracker 1000 500 ''review''))
                ''improvement'' = Inr JNull)"
proof -
  have act: "active_sessions history_state ''2026-02-07_001'' = Some a_session"
    by (simp add: history_state_def one_session_state_def)
  have rev: "generate_review flaky_env (s_scenario a_session) (user_responses a_session)
        (s_tracker a_session) (placed history_state) =
       (Inr full_feedback, track new_tracker 1000 500 ''review'',
        [\<lparr>rq_model = ''claude-opus-4-6'', rq_max_tokens = 4096, rq_system = ''review system'',
          rq_user = ''review user''\<rparr>])"
    by code_simp
  have past: "get_past_summaries flaky_env 5 (sessions_dir history_state) = Inr [a_summary]"
    by code_simp
  have wr: "disk_writable flaky_env"
    by code_simp
  have tag: "py_in ''error'' full_feedback = (Inr False :: rat exn + bool)"
    by code_simp
  have cmp: "generate_improvement_comparison flaky_env [a_summary] full_feedback (track new_tracker 1000 500 ''review'')
        [\<lparr>rq_model = ''claude-opus-4-6'', rq_max_tokens = 4096, rq_system = ''review system'',
          rq_user = ''review user''\<rparr>] =
       (Inl (APIError ''overloaded''), track new_tracker 1000 500 ''review'',
        [\<lparr>rq_model = ''claude-opus-4-6'', rq_max_tokens = 4096, rq_system = ''review system'',
          rq_user = ''review user''\<rparr>,
         \<lparr>rq_model = ''claude-opus-4-6'', rq_max_tokens = 1024, rq_system = ''improvement system'',
          rq_user = ''improvement user''\<rparr>])"
    by code_simp
  have fin: "\<exists>m. model (floats flaky_env) (app_config flaky_env) = Inr m \<and>
          review_session flaky_env ''2026-02-07_001'' history_state =
            (Inr (JObj [(''feedback'', full_feedback), (''improvement'', JNull),
                        (''token_usage'', to_dict (floats flaky_env) (track new_tracker 1000 500 ''review'') m)]),
             history_state\<lparr>active_sessions := (active_sessions history_state)(''2026-02-07_001'' := None),
               sessions_dir := AList.update (''2026-02-07_001'' @ ''.json'')
                  (json_dumps flaky_env (session_data flaky_env m a_session full_feedback None
                     (track new_tracker 1000 500 ''review''))) (sessions_dir history_state),
               placed :=
                 [\<lparr>rq_model = ''claude-opus-4-6'', rq_max_tokens = 4096, rq_system = ''review system'',
          rq_user = ''review user''\<rparr>,
                  \<lparr>rq_model = ''claude-opus-4-6'', rq_max_tokens = 1024, rq_system = ''improvement system'',
          rq_user = ''improvement user''\<rparr>]\<rparr>)
          \<and> getitem (session_data flaky_env m a_session full_feedback None (track new_tracker 1000 500 ''review''))
                ''feedback'' = Inr full_feedback
          \<and> getitem (session_data flaky_env m a_session full_feedback None (track new_tracker 1000 500 ''review''))
                ''improvement'' = Inr JNull"
    using comparison_downgrade [OF act rev past wr, THEN conjunct2, THEN conjunct1] tag cmp
    by fastforce
  from act rev past wr tag cmp fin show ?thesis by blast
qed

section \<open>Orchestrator: grading a quick session\<close>

text \<open>
  Claim C10, as stated, at a concrete input: the grading call returns the sentinel record,
  the submit fails with status 500, and the entry of the quick session is not what it was:
  its tracker, which the gateway shares, has recorded the usage of the grading call.
\<close>

theorem quick_sentinel_changes_session:
  "fst (quick_grading (stub_env ''not json'') good_scenario ''resp'' new_tracker []) =
     Inr (JObj [(''error'', JStr ''Failed to parse JSON response''),
                (''raw_response'', JStr ''not json''),
                (''parse_error'', JStr ''Expecting value'')])
   \<and> fst (submit_quick_session (stub_env ''not json'') ''quick_2026-02-07_001'' ''resp'' 10 ''mobile''
          one_session_state) = Inl (HTTPException 500 ''Grading parse error: '' None)
   \<and> map_option q_tracker (active_quick_sessions one_session_state ''quick_2026-02-07_001'') = Some new_tracker
   \<and> map_option q_tracker (active_quick_sessions
        (snd (submit_quick_session (stub_env ''not json'') ''quick_2026-02-07_001'' ''resp'' 10 ''mobile''
          one_session_state)) ''quick_2026-02-07_001'')
      = Some \<lparr>total_input_tokens = 1000, total_output_tokens = 500, call_count = 1,
              calls = [\<lparr>label = ''quick_grade'', input_tokens = 1000, output_tokens = 500\<rparr>]\<rparr>
   \<and> active_quick_sessions
        (snd (submit_quick_session (stub_env ''not json'') ''quick_2026-02-07_001'' ''resp'' 10 ''mobile''
          one_session_state)) ''quick_2026-02-07_001''
      \<noteq> active_quick_sessions one_session_state ''quick_2026-02-07_001''"
  by code_simp

text \<open>
  Claim C10, amended. For an active quick session: if the grading call returns a result
  that carries the error tag (the parse-failure sentinel does), the submit fails, and the
  state after it differs from the state before in the tracker of the session and in the
  requests placed only; whenever the submit fails, nothing is written to either store and
  the session is present, changed in its tracker at most; whenever the submit succeeds,
  the grading call returned a result without the error tag, which is the feedback
  returned, the write succeeded, the record is in the quick store and the entry is
  removed.
\<close>

theorem quick_submit_atomicity:
  assumes act: "active_quick_sessions s sid = Some session"
  shows
    "(\<forall>fb t p. quick_grading E (q_scenario session) response (q_tracker session) (placed s) = (Inr fb, t, p)
          \<and> py_in ''error'' fb = Inr True \<longrightarrow>
        (\<exists>e. submit_quick_session E sid response seconds device s =
               (Inl e, s\<lparr>active_quick_sessions := (active_quick_sessions s)(sid \<mapsto> session\<lparr>q_tracker := t\<rparr>),
                         placed := p\<rparr>)))
     \<and> (\<forall>e s'. submit_quick_session E sid response seconds device s = (Inl e, s') \<longrightarrow>
          quick_sessions_dir s' = quick_sessions_dir s \<and> sessions_dir s' = sessions_dir s \<and>
          (\<exists>t. active_quick_sessions s' sid = Some (session\<lparr>q_tracker := t\<rparr>)))
     \<and> (\<forall>r s'. submit_quick_session E sid response seconds device s = (Inr r, s') \<longrightarrow>
          (\<exists>fb t p data.
             quick_grading E (q_scenario session) response (q_tracker session) (placed s) = (Inr fb, t, p)
             \<and> py_in ''error'' fb = Inr False
             \<and> r = JObj [(''feedback'', fb)]
             \<and> disk_writable E
             \<and> quick_sessions_dir s' = AList.update (sid @ ''.json'') (json_dumps E data) (quick_sessions_dir s)
             \<and> active_quick_sessions s' sid = None))
     \<and> (\<forall>raw cleaned msg. json_loads E cleaned = Inl msg \<longrightarrow>
          py_in ''error'' (parse_json E raw cleaned) = Inr True)"
proof -
  have A: "\<forall>fb t p. quick_grading E (q_scenario session) response (q_tracker session) (placed s) = (Inr fb, t, p)
          \<and> py_in ''error'' fb = Inr True \<longrightarrow>
        (\<exists>e. submit_quick_session E sid response seconds device s =
               (Inl e, s\<lparr>active_quick_sessions := (active_quick_sessions s)(sid \<mapsto> session\<lparr>q_tracker := t\<rparr>),
                         placed := p\<rparr>))"
    using act by (simp add: submit_quick_session_def quick_tracked_def split: sum.splits)
  have B: "\<forall>e s'. submit_quick_session E sid response seconds device s = (Inl e, s') \<longrightarrow>
          quick_sessions_dir s' = quick_sessions_dir s \<and> sessions_dir s' = sessions_dir s \<and>
          (\<exists>t. active_quick_sessions s' sid = Some (session\<lparr>q_tracker := t\<rparr>))"
  proof (intro allI impI)
    fix e s'
    assume "submit_quick_session E sid response seconds device s = (Inl e, s')"
    then have "\<exists>t p. s' = quick_tracked s sid session t p"
      using act
      by (auto simp: submit_quick_session_def split: prod.splits sum.splits bool.splits)
    then show "quick_sessions_dir s' = quick_sessions_dir s \<and> sessions_dir s' = sessions_dir s \<and>
          (\<exists>t. active_quick_sessions s' sid = Some (session\<lparr>q_tracker := t\<rparr>))"
      by (auto simp: quick_tracked_def)
  qed
  have C: "\<forall>r s'. submit_quick_session E sid response seconds device s = (Inr r, s') \<longrightarrow>
          (\<exists>fb t p data.
             quick_grading E (q_scenario session) response (q_tracker session) (placed s) = (Inr fb, t, p)
             \<and> py_in ''error'' fb = Inr False
             \<and> r = JObj [(''feedback'', fb)]
             \<and> disk_writable E
             \<and> quick_sessions_dir s' = AList.update (sid @ ''.json'') (json_dumps E data) (quick_sessions_dir s)
             \<and> active_quick_sessions s' sid = None)"
    using act
    by (auto simp: submit_quick_session_def split: prod.splits sum.splits bool.splits
        dest!: save_quick_session_Inr)
  have D: "\<forall>raw cleaned msg. json_loads E cleaned = Inl msg \<longrightarrow>
          py_in ''error'' (parse_json E raw cleaned) = Inr True"
    by (simp add: sentinel_tagged)
  show ?thesis
    by (rule conjI [OF A conjI [OF B conjI [OF C D]]])
qed

text \<open>
  The theorem at work: an answer that is not JSON makes the submit fail and keeps the
  session with the tracked usage; an answer that parses is persisted and the entry removed.
\<close>

theorem quick_submit_atomicity_witness:
  "active_quick_sessions one_session_state ''quick_2026-02-07_001'' = Some a_quick_session
   \<and> quick_grading (stub_env ''not json'') (q_scenario a_quick_session) ''resp''
        (q_tracker a_quick_session) (placed one_session_state) =
       (Inr (JObj [(''error'', JStr ''Failed to parse JSON response''),
                   (''raw_response'', JStr ''not json''),
                   (''parse_error'', JStr ''Expecting value'')]),
        track new_tracker 1000 500 ''quick_grade'',
        [\<lparr>rq_model = ''claude-opus-4-6'', rq_max_tokens = 1024, rq_system = ''quick grade system'',
          rq_user = ''quick grade user''\<rparr>])
   \<and> (\<exists>e. submit_quick_session (stub_env ''not json'') ''quick_2026-02-07_001'' ''resp'' 10 ''mobile''
             one_session_state =
           (Inl e, one_session_state\<lparr>active_quick_sessions :=
               (active_quick_sessions one_session_state)(''quick_2026-02-07_001'' \<mapsto>
                  a_quick_session\<lparr>q_tracker := track new_tracker 1000 500 ''quick_grade''\<rparr>),
              placed := [\<lparr>rq_model = ''claude-opus-4-6'', rq_max_tokens = 1024,
                          rq_system = ''quick grade system'', rq_user = ''quick grade user''\<rparr>]\<rparr>))
   \<and> disk_writable (stub_env ''FEEDBACK'')
   \<and> active_quick_sessions
        (snd (submit_quick_session (stub_env ''FEEDBACK'') ''quick_2026-02-07_001'' ''resp'' 10 ''mobile''
               one_session_state)) ''quick_2026-02-07_001'' = None
   \<and> (\<exists>data. quick_sessions_dir
        (snd (submit_quick_session (stub_env ''FEEDBACK'') ''quick_2026-02-07_001'' ''resp'' 10 ''mobile''
               one_session_state)) =
        AList.update (''quick_2026-02-07_001'' @ ''.json'') (json_dumps (stub_env ''FEEDBACK'') data)
          (quick_sessions_dir one_session_state))"
proof -
  have act: "active_quick_sessions one_session_state ''quick_2026-02-07_001'' = Some a_quick_session"
    by (simp add: one_session_state_def)
  have g: "quick_grading (stub_env ''not json'') (q_scenario a_quick_session) ''resp''
        (q_tracker a_quick_session) (placed one_session_state) =
       (Inr (JObj [(''error'', JStr ''Failed to parse JSON response''),
                   (''raw_response'', JStr ''not json''),
                   (''parse_error'', JStr ''Expecting value'')]),
        track new_tracker 1000 500 ''quick_grade'',
        [\<lparr>rq_model = ''claude-opus-4-6'', rq_max_tokens = 1024, rq_system = ''quick grade system'',
          rq_user = ''quick grade user''\<rparr>])"
    by code_simp
  have tag: "py_in ''error'' (JObj [(''error'', JStr ''Failed to parse JSON response''),
                   (''raw_response'', JStr ''not json''),
                   (''parse_error'', JStr ''Expecting value'')]) = (Inr True :: rat exn + bool)"
    by code_simp
  have fails: "\<exists>e. submit_quick_session (stub_env ''not json'') ''quick_2026-02-07_001'' ''resp'' 10 ''mobile''
             one_session_state =
           (Inl e, one_session_state\<lparr>active_quick_sessions :=
               (active_quick_sessions one_session_state)(''quick_2026-02-07_001'' \<mapsto>
                  a_quick_session\<lparr>q_tracker := track new_tracker 1000 500 ''quick_grade''\<rparr>),
              placed := [\<lparr>rq_model = ''claude-opus-4-6'', rq_max_tokens = 1024,
                          rq_system = ''quick grade system'', rq_user = ''quick grade user''\<rparr>]\<rparr>)"
    using quick_submit_atomicity [OF act, of "stub_env ''not json''" "''resp''" 10 "''mobile''",
        THEN conjunct1] g tag
    by blast
  have "\<not> isl (fst (submit_quick_session (stub_env ''FEEDBACK'') ''quick_2026-02-07_001'' ''resp'' 10
          ''mobile'' one_session_state))"
    by code_simp
  then obtain r where "submit_quick_session (stub_env ''FEEDBACK'') ''quick_2026-02-07_001'' ''resp'' 10
          ''mobile'' one_session_state =
      (Inr r, snd (submit_quick_session (stub_env ''FEEDBACK'') ''quick_2026-02-07_001'' ''resp'' 10
          ''mobile'' one_session_state))"
    by (cases "fst (submit_quick_session (stub_env ''FEEDBACK'') ''quick_2026-02-07_001'' ''resp'' 10
          ''mobile'' one_session_state)") (auto simp: prod_eq_iff)
  with quick_submit_atomicity [OF act, of "stub_env ''FEEDBACK''" "''resp''" 10 "''mobile''",
        THEN conjunct2, THEN conjunct2, THEN conjunct1]
  have fin: "disk_writable (stub_env ''FEEDBACK'')
   \<and> active_quick_sessions
        (snd (submit_quick_session (stub_env ''FEEDBACK'') ''quick_2026-02-07_001'' ''resp'' 10 ''mobile''
               one_session_state)) ''quick_2026-02-07_001'' = None
   \<and> (\<exists>data. quick_sessions_dir
        (snd (submit_quick_session (stub_env ''FEEDBACK'') ''quick_2026-02-07_001'' ''resp'' 10 ''mobile''
               one_session_state)) =
        AList.update (''quick_2026-02-07_001'' @ ''.json'') (json_dumps (stub_env ''FEEDBACK'') data)
          (quick_sessions_dir one_session_state))"
    by blast
  from act g fails fin show ?thesis by blast
qed

end
